theory Spec2Isabelle
  imports Complex_Main
begin

section \<open>Data model\<close>

text \<open>
  The \<open>User\<close> row as \<open>AuthService\<close> and \<open>JwtStrategy\<close> read and write it. A nullable
  column is an \<open>option\<close>; a \<open>Date\<close> is its millisecond time value, which is what the
  comparisons and \<open>getTime()\<close> of the source work on. The primary key is called \<open>id'\<close>
  because \<open>id\<close> is the identity function of HOL.
\<close>

datatype UserRole = USER | ADMIN

record User =
  id' :: string
  firstName :: string
  lastName :: string
  email :: string
  phone :: string
  password :: string
  role :: UserRole
  isActive :: bool
  isPhoneVerified :: bool
  isEmailVerified :: bool
  phoneVerificationOTP :: "string option"
  phoneVerificationOTPExpires :: "int option"
  emailVerificationOTP :: "string option"
  emailVerificationOTPExpires :: "int option"
  resetPasswordOTP :: "string option"
  resetPasswordOTPExpires :: "int option"
  resetPasswordToken :: "string option"
  resetPasswordExpires :: "int option"
  lastOtpRequestTime :: "int option"
  otpRequestCount :: int

text \<open>
  Every exception the modelled code can leave a call with. The three HTTP exceptions
  carry their message. \<open>DispatchError\<close> is whatever the SMS or mail service throws when
  the source lets it propagate unchanged; \<open>RecordNotFound\<close> is the store's failure of an
  update whose id is absent; \<open>ClientValidationError\<close> is the store client's refusal of a
  query it finds malformed.
\<close>

datatype error =
    BadRequestException string
  | UnauthorizedException string
  | ForbiddenException string
  | DispatchError
  | RecordNotFound
  | ClientValidationError

text \<open>Messages handed to the two outbound services, in the order they were sent.\<close>

datatype sms =
    PasswordResetSms string string string
  | PhoneVerificationSms string string string

datatype mail = ResetTokenMail string string string

record state =
  users :: "User list"
  smsSent :: "sms list"
  mailSent :: "mail list"

text \<open>
  What a call reads from its surroundings and does not compute itself: the three limits
  the constructor parses from the configuration (taken here as the integers
  \<open>parseInt\<close> returned), the local calendar date \<open>toDateString\<close> of a time value,
  \<open>bcrypt.hash(_, 10)\<close>, \<open>bcrypt.compare\<close> and \<open>jwtService.sign\<close>. The claims of the
  JWT are the tuple (sub, email, phone, role).
\<close>

record 'd env =
  otpExpiryMinutes :: int
  otpDailyLimit :: int
  otpMinIntervalMinutes :: int
  toDateString :: "int \<Rightarrow> 'd"
  bcrypt_hash :: "string \<Rightarrow> string"
  bcrypt_compare :: "string \<Rightarrow> string \<Rightarrow> bool"
  jwt_sign :: "string \<times> string \<times> string \<times> UserRole \<Rightarrow> string"

section \<open>The store\<close>

text \<open>
  The Prisma client behind \<open>this.prisma.user\<close> is not part of the sources at hand; its
  operations follow the Store contract of the spec. The table is the list of its rows.
\<close>

text \<open>
  Modelled from the spec: \<open>findByField(field, value) -> Identity?\<close> for
  \<open>findUnique({where: {phone}})\<close>, the first row with that phone number or nothing.
\<close>

definition findUnique_phone :: "string \<Rightarrow> User list \<Rightarrow> User option" where
  "findUnique_phone p us = find (\<lambda>u. phone u = p) us"

text \<open>
  Modelled from the spec: \<open>findByField(field, value) -> Identity?\<close> for
  \<open>findUnique({where: {email}})\<close>, the first row with that email or nothing.
\<close>

definition findUnique_email :: "string \<Rightarrow> User list \<Rightarrow> User option" where
  "findUnique_email e us = find (\<lambda>u. email u = e) us"

text \<open>
  Modelled from the spec: \<open>findById(id) -> Identity?\<close> for
  \<open>findUnique({where: {id}})\<close>, the first row with that id or nothing.
\<close>

definition findUnique_id :: "string \<Rightarrow> User list \<Rightarrow> User option" where
  "findUnique_id i us = find (\<lambda>u. id' u = i) us"

text \<open>
  \<open>findUnique({where: {id: userId}})\<close> as \<open>JwtStrategy.validate\<close> calls it, where
  \<open>userId\<close> may be \<open>undefined\<close>. With an id the lookup is \<open>findUnique_id\<close>. What the
  client does with an undefined id is fixed neither by the sources at hand nor by the
  store contract of the spec, which speaks of \<open>findById(id)\<close> only. It is the parameter
  \<open>onUndefined\<close>: the error the client throws, or the row (or nothing) it returns.
\<close>

definition findUnique_id_opt ::
  "(error + User option) \<Rightarrow> string option \<Rightarrow> User list \<Rightarrow> error + User option" where
  "findUnique_id_opt onUndefined k us =
     (case k of None \<Rightarrow> onUndefined | Some i \<Rightarrow> Inr (findUnique_id i us))"

text \<open>
  Modelled from the spec: \<open>update(id, fields) -> Identity\<close>, which fails if the id is
  absent. The rows with that id receive the new field values, every other row is kept.
\<close>

definition update_user :: "string \<Rightarrow> (User \<Rightarrow> User) \<Rightarrow> User list \<Rightarrow> error + User list" where
  "update_user i f us =
     (if find (\<lambda>u. id' u = i) us = None then Inl RecordNotFound
      else Inr (map (\<lambda>u. if id' u = i then f u else u) us))"

section \<open>Numbers in messages\<close>

text \<open>The decimal rendering of an integer inside a template string.\<close>

fun digits :: "nat \<Rightarrow> string" where
  "digits n =
     (if n < 10 then [char_of (48 + n)]
      else digits (n div 10) @ [char_of (48 + n mod 10)])"

declare digits.simps [simp del]

definition show_int :: "int \<Rightarrow> string" where
  "show_int i = (if i < 0 then ''-'' @ digits (nat (- i)) else digits (nat i))"

section \<open>AuthService: issuing one-time codes\<close>

text \<open>
  The rate limiting of \<open>generatePasswordResetOTP\<close> and \<open>generatePhoneVerificationOTP\<close> is
  the same text in both functions; it is modelled once, in three parts.

  First part, \<open>// Check rate limiting\<close>: with a previous request on record,
  \<open>minutesSinceLastRequest = (now - last) / (1000 * 60)\<close>, and a value below the minimum
  interval throws with \<open>Math.ceil(otpMinIntervalMinutes - minutesSinceLastRequest)\<close> in the
  message. The quotient is a rational number here, where the source has a double.
\<close>

definition minutesSinceLastRequest :: "int \<Rightarrow> int \<Rightarrow> rat" where
  "minutesSinceLastRequest now lst = of_int (now - lst) / (1000 * 60)"

definition waitMessage :: "int \<Rightarrow> string" where
  "waitMessage waitMinutes =
     ''Please wait '' @ show_int waitMinutes @ '' minute(s) before requesting another OTP''"

definition checkMinInterval :: "'d env \<Rightarrow> int \<Rightarrow> User \<Rightarrow> error option" where
  "checkMinInterval env now user =
     (case lastOtpRequestTime user of
        None \<Rightarrow> None
      | Some lst \<Rightarrow>
          if minutesSinceLastRequest now lst < of_int (otpMinIntervalMinutes env)
          then Some (BadRequestException (waitMessage
                 \<lceil>of_int (otpMinIntervalMinutes env) - minutesSinceLastRequest now lst\<rceil>))
          else None)"

text \<open>
  Second part, \<open>// Reset daily counter\<close>: with a previous request on record whose local
  date string differs from today's, the stored counter of the row is set to 0. Only the
  table changes: the \<open>user\<close> object read at the start of the call is not touched.
\<close>

definition resetDailyCounter :: "'d env \<Rightarrow> int \<Rightarrow> User \<Rightarrow> User list \<Rightarrow> error + User list" where
  "resetDailyCounter env today user us =
     (case lastOtpRequestTime user of
        None \<Rightarrow> Inr us
      | Some lst \<Rightarrow>
          if toDateString env lst \<noteq> toDateString env today
          then update_user (id' user) (\<lambda>u. u\<lparr>otpRequestCount := 0\<rparr>) us
          else Inr us)"

text \<open>Third part, \<open>// Check daily limit\<close>, on the \<open>user\<close> object read at the start.\<close>

definition limitMessage :: "'d env \<Rightarrow> string" where
  "limitMessage env =
     ''You have exceeded the maximum number of OTP requests ('' @ show_int (otpDailyLimit env)
       @ '') for today''"

definition checkDailyLimit :: "'d env \<Rightarrow> User \<Rightarrow> error option" where
  "checkDailyLimit env user =
     (if otpRequestCount user \<ge> otpDailyLimit env
      then Some (BadRequestException (limitMessage env)) else None)"

text \<open>
  \<open>generatePasswordResetOTP(phone)\<close>. Beside the phone number the model takes what the
  call draws from outside: the clock readings \<open>now\<close> (\<open>const now = new Date()\<close>), \<open>today\<close>
  (\<open>const today = new Date()\<close>) and \<open>dateNow\<close> (\<open>Date.now()\<close> of the expiry), the code
  \<open>otp\<close> that the random draw produced, and \<open>smsOk\<close>, whether the SMS service returned
  rather than threw.
\<close>

definition generatePasswordResetOTP ::
  "'d env \<Rightarrow> int \<Rightarrow> int \<Rightarrow> int \<Rightarrow> string \<Rightarrow> bool \<Rightarrow> string \<Rightarrow> state \<Rightarrow> (error + unit) \<times> state" where
  "generatePasswordResetOTP env now today dateNow otp smsOk phone' s =
     (case findUnique_phone phone' (users s) of
        None \<Rightarrow> (Inl (BadRequestException ''User not found''), s)
      | Some user \<Rightarrow>
          (case checkMinInterval env now user of
             Some e \<Rightarrow> (Inl e, s)
           | None \<Rightarrow>
               (case resetDailyCounter env today user (users s) of
                  Inl e \<Rightarrow> (Inl e, s)
                | Inr us1 \<Rightarrow>
                    (case checkDailyLimit env user of
                       Some e \<Rightarrow> (Inl e, s\<lparr>users := us1\<rparr>)
                     | None \<Rightarrow>
                         (case update_user (id' user)
                                 (\<lambda>u. u\<lparr>resetPasswordOTP := Some otp,
                                        resetPasswordOTPExpires :=
                                          Some (dateNow + otpExpiryMinutes env * 60 * 1000),
                                        lastOtpRequestTime := Some now,
                                        otpRequestCount := otpRequestCount user + 1\<rparr>) us1 of
                            Inl e \<Rightarrow> (Inl e, s\<lparr>users := us1\<rparr>)
                          | Inr us2 \<Rightarrow>
                              if smsOk
                              then (Inr (), s\<lparr>users := us2,
                                     smsSent := smsSent s @ [PasswordResetSms phone' otp (firstName user)]\<rparr>)
                              else (Inl (BadRequestException
                                      ''Failed to send OTP. Please try again later.''),
                                    s\<lparr>users := us2\<rparr>))))))"

text \<open>
  \<open>generatePhoneVerificationOTP(userId)\<close>, with the same outside inputs. A throw of the
  SMS service is not caught here.
\<close>

definition generatePhoneVerificationOTP ::
  "'d env \<Rightarrow> int \<Rightarrow> int \<Rightarrow> int \<Rightarrow> string \<Rightarrow> bool \<Rightarrow> string \<Rightarrow> state \<Rightarrow> (error + unit) \<times> state" where
  "generatePhoneVerificationOTP env now today dateNow otp smsOk userId s =
     (case findUnique_id userId (users s) of
        None \<Rightarrow> (Inl (BadRequestException ''User not found''), s)
      | Some user \<Rightarrow>
          if isPhoneVerified user
          then (Inl (BadRequestException ''Phone number is already verified''), s)
          else
          (case checkMinInterval env now user of
             Some e \<Rightarrow> (Inl e, s)
           | None \<Rightarrow>
               (case resetDailyCounter env today user (users s) of
                  Inl e \<Rightarrow> (Inl e, s)
                | Inr us1 \<Rightarrow>
                    (case checkDailyLimit env user of
                       Some e \<Rightarrow> (Inl e, s\<lparr>users := us1\<rparr>)
                     | None \<Rightarrow>
                         (case update_user (id' user)
                                 (\<lambda>u. u\<lparr>phoneVerificationOTP := Some otp,
                                        phoneVerificationOTPExpires :=
                                          Some (dateNow + otpExpiryMinutes env * 60 * 1000),
                                        lastOtpRequestTime := Some now,
                                        otpRequestCount := otpRequestCount user + 1\<rparr>) us1 of
                            Inl e \<Rightarrow> (Inl e, s\<lparr>users := us1\<rparr>)
                          | Inr us2 \<Rightarrow>
                              if smsOk
                              then (Inr (), s\<lparr>users := us2,
                                     smsSent := smsSent s @
                                       [PhoneVerificationSms (phone user) otp (firstName user)]\<rparr>)
                              else (Inl DispatchError, s\<lparr>users := us2\<rparr>))))))"

section \<open>AuthService: login\<close>

text \<open>What \<open>logIn\<close> returns: the signed token and the public fields of the user
  (id, firstName, lastName, email, phone, role, isActive, isPhoneVerified).\<close>

datatype PublicUser = PublicUser string string string string string UserRole bool bool

datatype LoginResult = LoginResult string PublicUser

definition logIn :: "'d env \<Rightarrow> string \<Rightarrow> string \<Rightarrow> state \<Rightarrow> error + LoginResult" where
  "logIn env phone' password' s =
     (case findUnique_phone phone' (users s) of
        None \<Rightarrow> Inl (UnauthorizedException ''Invalid credentials'')
      | Some user \<Rightarrow>
          if \<not> bcrypt_compare env password' (password user)
          then Inl (UnauthorizedException ''Invalid credentials'')
          else if \<not> isActive user
          then Inl (ForbiddenException ''Your account has been deactivated'')
          else if \<not> isPhoneVerified user
          then Inl (ForbiddenException ''Please verify your phone number before logging in'')
          else Inr (LoginResult
                 (jwt_sign env (id' user, email user, phone user, role user))
                 (PublicUser (id' user) (firstName user) (lastName user) (email user)
                    (phone user) (role user) (isActive user) (isPhoneVerified user))))"

section \<open>AuthService: consuming one-time codes\<close>

text \<open>
  \<open>!user.phoneVerificationOTP\<close> is true of \<open>null\<close> and of the empty string, the two
  falsy values a nullable string column can hold; a \<open>Date\<close> object is never falsy.
\<close>

definition falsy :: "string option \<Rightarrow> bool" where
  "falsy v = (case v of None \<Rightarrow> True | Some str \<Rightarrow> str = [])"

text \<open>
  \<open>verifyPhone(phone, otp)\<close>; \<open>now\<close> is the reading of \<open>new Date()\<close>. The two halves
  of \<open>!user.phoneVerificationOTP || !user.phoneVerificationOTPExpires\<close> throw the same
  exception; the model looks at the expiry first, so that it has the value at hand for
  the comparison that follows. \<open>resetPasswordWithOTP\<close> and \<open>verifyEmail\<close> are written
  the same way.
\<close>

definition verifyPhone :: "int \<Rightarrow> string \<Rightarrow> string \<Rightarrow> state \<Rightarrow> (error + unit) \<times> state" where
  "verifyPhone now phone' otp s =
     (case findUnique_phone phone' (users s) of
        None \<Rightarrow> (Inl (BadRequestException ''User not found''), s)
      | Some user \<Rightarrow>
          if isPhoneVerified user
          then (Inl (BadRequestException ''Phone number is already verified''), s)
          else
          (case phoneVerificationOTPExpires user of
             None \<Rightarrow> (Inl (BadRequestException ''No OTP found. Please request a new one''), s)
           | Some expires \<Rightarrow>
               if falsy (phoneVerificationOTP user)
               then (Inl (BadRequestException ''No OTP found. Please request a new one''), s)
               else if now > expires
               then (Inl (BadRequestException ''OTP has expired. Please request a new one''), s)
               else if phoneVerificationOTP user \<noteq> Some otp
               then (Inl (BadRequestException ''Invalid OTP''), s)
               else
               (case update_user (id' user)
                       (\<lambda>u. u\<lparr>isPhoneVerified := True,
                              phoneVerificationOTP := None,
                              phoneVerificationOTPExpires := None\<rparr>) (users s) of
                  Inl e \<Rightarrow> (Inl e, s)
                | Inr us1 \<Rightarrow> (Inr (), s\<lparr>users := us1\<rparr>))))"

text \<open>\<open>resendVerificationOTP(phone)\<close> hands over to the issue path.\<close>

definition resendVerificationOTP ::
  "'d env \<Rightarrow> int \<Rightarrow> int \<Rightarrow> int \<Rightarrow> string \<Rightarrow> bool \<Rightarrow> string \<Rightarrow> state \<Rightarrow> (error + unit) \<times> state" where
  "resendVerificationOTP env now today dateNow otp smsOk phone' s =
     (case findUnique_phone phone' (users s) of
        None \<Rightarrow> (Inl (BadRequestException ''User not found''), s)
      | Some user \<Rightarrow>
          if isPhoneVerified user
          then (Inl (BadRequestException ''Phone number is already verified''), s)
          else generatePhoneVerificationOTP env now today dateNow otp smsOk (id' user) s)"

text \<open>\<open>resetPasswordWithOTP(phone, otp, newPassword)\<close>.\<close>

definition resetPasswordWithOTP ::
  "'d env \<Rightarrow> int \<Rightarrow> string \<Rightarrow> string \<Rightarrow> string \<Rightarrow> state \<Rightarrow> (error + unit) \<times> state" where
  "resetPasswordWithOTP env now phone' otp newPassword s =
     (case findUnique_phone phone' (users s) of
        None \<Rightarrow> (Inl (BadRequestException ''User not found''), s)
      | Some user \<Rightarrow>
          (case resetPasswordOTPExpires user of
             None \<Rightarrow> (Inl (BadRequestException ''No OTP found. Please request a new one''), s)
           | Some expires \<Rightarrow>
               if falsy (resetPasswordOTP user)
               then (Inl (BadRequestException ''No OTP found. Please request a new one''), s)
               else if now > expires
               then (Inl (BadRequestException ''OTP has expired. Please request a new one''), s)
               else if resetPasswordOTP user \<noteq> Some otp
               then (Inl (BadRequestException ''Invalid OTP''), s)
               else
               (case update_user (id' user)
                       (\<lambda>u. u\<lparr>password := bcrypt_hash env newPassword,
                              resetPasswordOTP := None,
                              resetPasswordOTPExpires := None\<rparr>) (users s) of
                  Inl e \<Rightarrow> (Inl e, s)
                | Inr us1 \<Rightarrow> (Inr (), s\<lparr>users := us1\<rparr>))))"

text \<open>\<open>verifyEmail(email, otp)\<close>.\<close>

definition verifyEmail :: "int \<Rightarrow> string \<Rightarrow> string \<Rightarrow> state \<Rightarrow> (error + unit) \<times> state" where
  "verifyEmail now email' otp s =
     (case findUnique_email email' (users s) of
        None \<Rightarrow> (Inl (BadRequestException ''User not found''), s)
      | Some user \<Rightarrow>
          if isEmailVerified user
          then (Inl (BadRequestException ''Email is already verified''), s)
          else
          (case emailVerificationOTPExpires user of
             None \<Rightarrow> (Inl (BadRequestException ''No OTP found. Please request a new one''), s)
           | Some expires \<Rightarrow>
               if falsy (emailVerificationOTP user)
               then (Inl (BadRequestException ''No OTP found. Please request a new one''), s)
               else if now > expires
               then (Inl (BadRequestException ''OTP has expired. Please request a new one''), s)
               else if emailVerificationOTP user \<noteq> Some otp
               then (Inl (BadRequestException ''Invalid OTP''), s)
               else
               (case update_user (id' user)
                       (\<lambda>u. u\<lparr>isEmailVerified := True,
                              emailVerificationOTP := None,
                              emailVerificationOTPExpires := None\<rparr>) (users s) of
                  Inl e \<Rightarrow> (Inl e, s)
                | Inr us1 \<Rightarrow> (Inr (), s\<lparr>users := us1\<rparr>))))"

section \<open>AuthService: reset by token\<close>

text \<open>
  \<open>generateResetToken(email)\<close>; \<open>resetToken\<close> is the hex string of the random bytes,
  \<open>dateNow\<close> the reading of \<open>Date.now()\<close>, \<open>mailOk\<close> whether the mail service returned
  rather than threw (its throw is not caught).
\<close>

definition generateResetToken ::
  "int \<Rightarrow> string \<Rightarrow> bool \<Rightarrow> string \<Rightarrow> state \<Rightarrow> (error + unit) \<times> state" where
  "generateResetToken dateNow resetToken mailOk email' s =
     (case findUnique_email email' (users s) of
        None \<Rightarrow> (Inr (), s)
      | Some user \<Rightarrow>
          (case update_user (id' user)
                  (\<lambda>u. u\<lparr>resetPasswordToken := Some resetToken,
                         resetPasswordExpires := Some (dateNow + 60 * 60 * 1000)\<rparr>) (users s) of
             Inl e \<Rightarrow> (Inl e, s)
           | Inr us1 \<Rightarrow>
               if mailOk
               then (Inr (), s\<lparr>users := us1,
                      mailSent := mailSent s @ [ResetTokenMail email' resetToken (firstName user)]\<rparr>)
               else (Inl DispatchError, s\<lparr>users := us1\<rparr>)))"

text \<open>
  The \<open>where\<close> clause of the query in \<open>resetPassword\<close>,
  \<open>{resetPasswordToken: token, resetPasswordExpires: {gt: new Date()}}\<close>: the row holds
  this token and a deadline greater than \<open>now\<close>. A row without a token or without a
  deadline does not satisfy it.
\<close>

definition holdsToken :: "string \<Rightarrow> int \<Rightarrow> User \<Rightarrow> bool" where
  "holdsToken token now u =
     (resetPasswordToken u = Some token \<and>
      (case resetPasswordExpires u of None \<Rightarrow> False | Some e \<Rightarrow> e > now))"

text \<open>
  Modelled from the spec: reset-by-token looks the identity up by matching token and
  unexpired deadline in a single query; \<open>findFirst\<close> returns the first row that
  satisfies the clause, or nothing.
\<close>

definition findFirst_resetToken :: "string \<Rightarrow> int \<Rightarrow> User list \<Rightarrow> User option" where
  "findFirst_resetToken token now us = find (holdsToken token now) us"

text \<open>\<open>resetPassword(token, newPassword)\<close>.\<close>

definition resetPassword ::
  "'d env \<Rightarrow> int \<Rightarrow> string \<Rightarrow> string \<Rightarrow> state \<Rightarrow> (error + unit) \<times> state" where
  "resetPassword env now token newPassword s =
     (case findFirst_resetToken token now (users s) of
        None \<Rightarrow> (Inl (BadRequestException ''Invalid or expired reset token''), s)
      | Some user \<Rightarrow>
          (case update_user (id' user)
                  (\<lambda>u. u\<lparr>password := bcrypt_hash env newPassword,
                         resetPasswordToken := None,
                         resetPasswordExpires := None\<rparr>) (users s) of
             Inl e \<Rightarrow> (Inl e, s)
           | Inr us1 \<Rightarrow> (Inr (), s\<lparr>users := us1\<rparr>)))"

section \<open>JwtStrategy\<close>

text \<open>
  The two fields \<open>validate\<close> destructures from the decoded payload, each absent or a
  string, and the row it returns under its \<open>select\<close> (id, firstName, lastName, email,
  phone, role, isActive).
\<close>

record JwtPayload =
  payload_id :: "string option"
  payload_sub :: "string option"

datatype AuthUser = AuthUser string string string string string UserRole bool

text \<open>\<open>const userId = sub || id\<close>: \<open>sub\<close> unless \<open>sub\<close> is falsy, and then \<open>id\<close>.\<close>

definition userIdOf :: "JwtPayload \<Rightarrow> string option" where
  "userIdOf payload = (if falsy (payload_sub payload) then payload_id payload else payload_sub payload)"

text \<open>
  \<open>validate(payload)\<close>. An error of the lookup is not caught and leaves the call; no row
  and an inactive row are the two Unauthorized rejections.
\<close>

definition validate :: "(error + User option) \<Rightarrow> JwtPayload \<Rightarrow> state \<Rightarrow> error + AuthUser" where
  "validate onUndefined payload s =
     (case findUnique_id_opt onUndefined (userIdOf payload) (users s) of
        Inl e \<Rightarrow> Inl e
      | Inr None \<Rightarrow> Inl (UnauthorizedException ''Login first to access this endpoint.'')
      | Inr (Some user) \<Rightarrow>
          if \<not> isActive user
          then Inl (UnauthorizedException ''User account is inactive'')
          else Inr (AuthUser (id' user) (firstName user) (lastName user) (email user)
                      (phone user) (role user) (isActive user)))"

section \<open>Example data\<close>

text \<open>
  A configuration with the default limits (codes live 10 minutes, 3 requests a day, 5
  minutes apart), dates taken in UTC, and one freshly signed-up user. The theorems below
  are tried on these.
\<close>

definition env0 :: "int env" where
  "env0 = \<lparr>otpExpiryMinutes = 10, otpDailyLimit = 3, otpMinIntervalMinutes = 5,
           toDateString = (\<lambda>t. t div 86400000),
           bcrypt_hash = (\<lambda>p. ''$2b$10$'' @ p),
           bcrypt_compare = (\<lambda>p h. h = ''$2b$10$'' @ p),
           jwt_sign = (\<lambda>(sub, e, p, r). ''jwt.'' @ sub)\<rparr>"

definition user0 :: User where
  "user0 = \<lparr>id' = ''u1'', firstName = ''Ada'', lastName = ''Obi'',
            email = ''ada@example.com'', phone = ''+2348012345678'',
            password = ''$2b$10$StrongPass123!'', role = USER, isActive = True,
            isPhoneVerified = False, isEmailVerified = True,
            phoneVerificationOTP = None, phoneVerificationOTPExpires = None,
            emailVerificationOTP = None, emailVerificationOTPExpires = None,
            resetPasswordOTP = None, resetPasswordOTPExpires = None,
            resetPasswordToken = None, resetPasswordExpires = None,
            lastOtpRequestTime = None, otpRequestCount = 0\<rparr>"

definition store :: "User list \<Rightarrow> state" where
  "store us = \<lparr>users = us, smsSent = [], mailSent = []\<rparr>"

definition tokenUser :: User where
  "tokenUser = user0\<lparr>resetPasswordToken := Some ''9f2c'', resetPasswordExpires := Some 3600000\<rparr>"

text \<open>
  The same user with a phone code and a reset code that expire at 600000, and a reset
  token that expires at 3600000; and the user with an unverified email and an email code.
\<close>

definition codeUser :: User where
  "codeUser = user0\<lparr>phoneVerificationOTP := Some ''123456'', phoneVerificationOTPExpires := Some 600000,
                      resetPasswordOTP := Some ''654321'', resetPasswordOTPExpires := Some 600000,
                      resetPasswordToken := Some ''9f2c'', resetPasswordExpires := Some 3600000\<rparr>"

definition emailCodeUser :: User where
  "emailCodeUser = user0\<lparr>isEmailVerified := False,
                      emailVerificationOTP := Some ''222222'', emailVerificationOTPExpires := Some 600000\<rparr>"

section \<open>Facts about the store\<close>

lemma find_map_invariant:
  "(\<And>x. P (g x) = P x) \<Longrightarrow> find P (map g xs) = map_option g (find P xs)"
  by (induction xs) auto

lemma find_Some_mem: "find P us = Some u \<Longrightarrow> u \<in> set us \<and> P u"
  by (auto simp: find_Some_iff)

lemma update_user_member:
  "u \<in> set us \<Longrightarrow>
   update_user (id' u) f us = Inr (map (\<lambda>r. if id' r = id' u then f r else r) us)"
  by (auto simp: update_user_def find_None_iff)

lemma find_update_user:
  assumes "find P us = Some u" and "\<And>x. P (f x) = P x"
    and "update_user (id' u) f us = Inr us'"
  shows "find P us' = Some (f u)"
proof -
  from assms(1) have "u \<in> set us" by (simp add: find_Some_mem)
  with assms(3) have "us' = map (\<lambda>r. if id' r = id' u then f r else r) us"
    by (simp add: update_user_member)
  moreover have "find P (map (\<lambda>r. if id' r = id' u then f r else r) us)
      = map_option (\<lambda>r. if id' r = id' u then f r else r) (find P us)"
    by (rule find_map_invariant) (simp add: assms(2))
  ultimately show ?thesis using assms(1) by simp
qed

lemma findUnique_email_None_iff: "findUnique_email e us = None \<longleftrightarrow> e \<notin> set (map email us)"
  by (auto simp: findUnique_email_def find_None_iff)

lemma map_field_update_user:
  assumes "update_user i f us = Inr us'" and "\<And>x. g (f x) = g x"
  shows "map g us' = map g us"
  using assms by (auto simp: update_user_def split: if_splits)

section \<open>Facts about the rate limiting\<close>

lemma within_interval_iff:
  "minutesSinceLastRequest now lst < of_int m \<longleftrightarrow> now - lst < m * 60000"
proof -
  have "minutesSinceLastRequest now lst < of_int m \<longleftrightarrow>
        (of_int (now - lst) :: rat) < of_int m * 60000"
    by (simp add: minutesSinceLastRequest_def pos_divide_less_eq)
  also have "\<dots> \<longleftrightarrow> (of_int (now - lst) :: rat) < of_int (m * 60000)"
    by simp
  also have "\<dots> \<longleftrightarrow> now - lst < m * 60000"
    by (rule of_int_less_iff)
  finally show ?thesis .
qed

lemma resetDailyCounter_member:
  assumes "u \<in> set us"
  shows "resetDailyCounter env today u us = Inr us \<or>
         resetDailyCounter env today u us =
           Inr (map (\<lambda>r. if id' r = id' u then r\<lparr>otpRequestCount := 0\<rparr> else r) us)"
  using assms by (simp add: resetDailyCounter_def update_user_member split: option.splits)

lemma resetDailyCounter_find:
  assumes "find P us = Some u" and "\<And>x. P (x\<lparr>otpRequestCount := 0\<rparr>) = P x"
    and "resetDailyCounter env today u us = Inr us1"
  shows "find P us1 = Some u \<or> find P us1 = Some (u\<lparr>otpRequestCount := 0\<rparr>)"
proof -
  from assms(1) have m: "u \<in> set us" by (simp add: find_Some_mem)
  from resetDailyCounter_member [OF m, of env today] assms(3)
  consider "us1 = us"
    | "update_user (id' u) (\<lambda>r. r\<lparr>otpRequestCount := 0\<rparr>) us = Inr us1"
    by (auto simp: update_user_member [OF m])
  then show ?thesis
  proof cases
    case 1
    with assms(1) show ?thesis by simp
  next
    case 2
    from find_update_user [OF assms(1) _ 2] assms(2) show ?thesis by simp
  qed
qed

lemma issue_find:
  assumes "find P us = Some u"
    and "\<And>x. P (x\<lparr>otpRequestCount := 0\<rparr>) = P x" and "\<And>x. P (F x) = P x"
    and "F (u\<lparr>otpRequestCount := 0\<rparr>) = F u"
    and "resetDailyCounter env today u us = Inr us1"
    and "update_user (id' u) F us1 = Inr us2"
  shows "find P us2 = Some (F u)"
proof -
  from resetDailyCounter_find [OF assms(1,2,5)]
  consider "find P us1 = Some u" | "find P us1 = Some (u\<lparr>otpRequestCount := 0\<rparr>)" by blast
  then show ?thesis
  proof cases
    case 1
    from find_update_user [OF 1 assms(3) assms(6)] show ?thesis .
  next
    case 2
    have "update_user (id' (u\<lparr>otpRequestCount := 0\<rparr>)) F us1 = Inr us2"
      using assms(6) by simp
    from find_update_user [OF 2 assms(3) this] show ?thesis by (simp add: assms(4))
  qed
qed


lemma checkMinInterval_last:
  assumes "lastOtpRequestTime v = Some t"
  shows "(now - t < otpMinIntervalMinutes env * 60000 \<longrightarrow>
           checkMinInterval env now v = Some (BadRequestException (waitMessage
             \<lceil>of_int (otpMinIntervalMinutes env) - minutesSinceLastRequest now t\<rceil>))) \<and>
         (otpMinIntervalMinutes env * 60000 \<le> now - t \<longrightarrow> checkMinInterval env now v = None)"
  using assms by (auto simp: checkMinInterval_def within_interval_iff)

lemma generatePasswordResetOTP_after:
  assumes "findUnique_phone p (users s) = Some v" and "lastOtpRequestTime v = Some t"
  shows "(now - t < otpMinIntervalMinutes env * 60000 \<longrightarrow>
           generatePasswordResetOTP env now today dateNow otp smsOk p s =
             (Inl (BadRequestException (waitMessage
                \<lceil>of_int (otpMinIntervalMinutes env) - minutesSinceLastRequest now t\<rceil>)), s)) \<and>
         (otpMinIntervalMinutes env * 60000 \<le> now - t \<and> otpDailyLimit env \<le> otpRequestCount v \<longrightarrow>
           fst (generatePasswordResetOTP env now today dateNow otp smsOk p s) =
             Inl (BadRequestException (limitMessage env)))"
proof (intro conjI impI)
  assume "now - t < otpMinIntervalMinutes env * 60000"
  with checkMinInterval_last [OF assms(2), of now env]
  have "checkMinInterval env now v = Some (BadRequestException (waitMessage
      \<lceil>of_int (otpMinIntervalMinutes env) - minutesSinceLastRequest now t\<rceil>))"
    by blast
  with assms(1) show "generatePasswordResetOTP env now today dateNow otp smsOk p s =
             (Inl (BadRequestException (waitMessage
                \<lceil>of_int (otpMinIntervalMinutes env) - minutesSinceLastRequest now t\<rceil>)), s)"
    by (simp add: generatePasswordResetOTP_def)
next
  assume a: "otpMinIntervalMinutes env * 60000 \<le> now - t \<and> otpDailyLimit env \<le> otpRequestCount v"
  with checkMinInterval_last [OF assms(2), of now env]
  have c: "checkMinInterval env now v = None" by blast
  from assms(1) have "v \<in> set (users s)"
    by (simp add: findUnique_phone_def find_Some_mem)
  from resetDailyCounter_member [OF this, of env today]
  obtain us1 where r: "resetDailyCounter env today v (users s) = Inr us1" by blast
  from a have "checkDailyLimit env v = Some (BadRequestException (limitMessage env))"
    by (simp add: checkDailyLimit_def)
  with assms(1) c r show "fst (generatePasswordResetOTP env now today dateNow otp smsOk p s) =
             Inl (BadRequestException (limitMessage env))"
    by (simp add: generatePasswordResetOTP_def)
qed

lemma generatePhoneVerificationOTP_after:
  assumes "findUnique_id uid (users s) = Some v" and "lastOtpRequestTime v = Some t"
    and "\<not> isPhoneVerified v"
  shows "(now - t < otpMinIntervalMinutes env * 60000 \<longrightarrow>
           generatePhoneVerificationOTP env now today dateNow otp smsOk uid s =
             (Inl (BadRequestException (waitMessage
                \<lceil>of_int (otpMinIntervalMinutes env) - minutesSinceLastRequest now t\<rceil>)), s)) \<and>
         (otpMinIntervalMinutes env * 60000 \<le> now - t \<and> otpDailyLimit env \<le> otpRequestCount v \<longrightarrow>
           fst (generatePhoneVerificationOTP env now today dateNow otp smsOk uid s) =
             Inl (BadRequestException (limitMessage env)))"
proof (intro conjI impI)
  assume "now - t < otpMinIntervalMinutes env * 60000"
  with checkMinInterval_last [OF assms(2), of now env]
  have "checkMinInterval env now v = Some (BadRequestException (waitMessage
      \<lceil>of_int (otpMinIntervalMinutes env) - minutesSinceLastRequest now t\<rceil>))"
    by blast
  with assms(1,3) show "generatePhoneVerificationOTP env now today dateNow otp smsOk uid s =
             (Inl (BadRequestException (waitMessage
                \<lceil>of_int (otpMinIntervalMinutes env) - minutesSinceLastRequest now t\<rceil>)), s)"
    by (simp add: generatePhoneVerificationOTP_def)
next
  assume a: "otpMinIntervalMinutes env * 60000 \<le> now - t \<and> otpDailyLimit env \<le> otpRequestCount v"
  with checkMinInterval_last [OF assms(2), of now env]
  have c: "checkMinInterval env now v = None" by blast
  from assms(1) have "v \<in> set (users s)"
    by (simp add: findUnique_id_def find_Some_mem)
  from resetDailyCounter_member [OF this, of env today]
  obtain us1 where r: "resetDailyCounter env today v (users s) = Inr us1" by blast
  from a have "checkDailyLimit env v = Some (BadRequestException (limitMessage env))"
    by (simp add: checkDailyLimit_def)
  with assms(1,3) c r show "fst (generatePhoneVerificationOTP env now today dateNow otp smsOk uid s) =
             Inl (BadRequestException (limitMessage env))"
    by (simp add: generatePhoneVerificationOTP_def)
qed

lemma generatePhoneVerificationOTP_success:
  assumes "generatePhoneVerificationOTP env now today dateNow otp smsOk uid s = (Inr (), s1)"
    and "findUnique_id uid (users s) = Some u"
  shows "\<not> isPhoneVerified u \<and>
    (\<exists>us1. resetDailyCounter env today u (users s) = Inr us1 \<and>
      update_user (id' u)
        (\<lambda>x. x\<lparr>phoneVerificationOTP := Some otp,
               phoneVerificationOTPExpires := Some (dateNow + otpExpiryMinutes env * 60 * 1000),
               lastOtpRequestTime := Some now,
               otpRequestCount := otpRequestCount u + 1\<rparr>) us1 = Inr (users s1))"
  using assms
  by (auto simp: generatePhoneVerificationOTP_def split: if_splits option.splits sum.splits)

lemma generatePasswordResetOTP_success:
  assumes "generatePasswordResetOTP env now today dateNow otp smsOk p s = (Inr (), s1)"
    and "findUnique_phone p (users s) = Some u"
  shows "\<exists>us1. resetDailyCounter env today u (users s) = Inr us1 \<and>
      update_user (id' u)
        (\<lambda>x. x\<lparr>resetPasswordOTP := Some otp,
               resetPasswordOTPExpires := Some (dateNow + otpExpiryMinutes env * 60 * 1000),
               lastOtpRequestTime := Some now,
               otpRequestCount := otpRequestCount u + 1\<rparr>) us1 = Inr (users s1)"
  using assms
  by (auto simp: generatePasswordResetOTP_def split: if_splits option.splits sum.splits)

section \<open>Facts about consuming a code\<close>

text \<open>
  On a user that is found, whose channel is not yet verified and whose slot is populated,
  each consuming function is decided by the time and then by the code.
\<close>

lemma verifyPhone_populated:
  assumes "findUnique_phone p (users s) = Some u" and "\<not> isPhoneVerified u"
    and "phoneVerificationOTP u = Some c" and "c \<noteq> []"
    and "phoneVerificationOTPExpires u = Some e"
  shows "verifyPhone now p otp s =
    (if now > e then (Inl (BadRequestException ''OTP has expired. Please request a new one''), s)
     else if otp \<noteq> c then (Inl (BadRequestException ''Invalid OTP''), s)
     else (Inr (), s\<lparr>users := map (\<lambda>r. if id' r = id' u
                                     then r\<lparr>isPhoneVerified := True,
                                            phoneVerificationOTP := None,
                                            phoneVerificationOTPExpires := None\<rparr>
                                     else r) (users s)\<rparr>))"
proof -
  from assms(1) have "u \<in> set (users s)" by (simp add: findUnique_phone_def find_Some_mem)
  note w = update_user_member [OF this]
  show ?thesis using assms by (simp add: verifyPhone_def falsy_def w)
qed

lemma verifyEmail_populated:
  assumes "findUnique_email em (users s) = Some u" and "\<not> isEmailVerified u"
    and "emailVerificationOTP u = Some c" and "c \<noteq> []"
    and "emailVerificationOTPExpires u = Some e"
  shows "verifyEmail now em otp s =
    (if now > e then (Inl (BadRequestException ''OTP has expired. Please request a new one''), s)
     else if otp \<noteq> c then (Inl (BadRequestException ''Invalid OTP''), s)
     else (Inr (), s\<lparr>users := map (\<lambda>r. if id' r = id' u
                                     then r\<lparr>isEmailVerified := True,
                                            emailVerificationOTP := None,
                                            emailVerificationOTPExpires := None\<rparr>
                                     else r) (users s)\<rparr>))"
proof -
  from assms(1) have "u \<in> set (users s)" by (simp add: findUnique_email_def find_Some_mem)
  note w = update_user_member [OF this]
  show ?thesis using assms by (simp add: verifyEmail_def falsy_def w)
qed

lemma resetPasswordWithOTP_populated:
  assumes "findUnique_phone p (users s) = Some u"
    and "resetPasswordOTP u = Some c" and "c \<noteq> []"
    and "resetPasswordOTPExpires u = Some e"
  shows "resetPasswordWithOTP env now p otp pw s =
    (if now > e then (Inl (BadRequestException ''OTP has expired. Please request a new one''), s)
     else if otp \<noteq> c then (Inl (BadRequestException ''Invalid OTP''), s)
     else (Inr (), s\<lparr>users := map (\<lambda>r. if id' r = id' u
                                     then r\<lparr>password := bcrypt_hash env pw,
                                            resetPasswordOTP := None,
                                            resetPasswordOTPExpires := None\<rparr>
                                     else r) (users s)\<rparr>))"
proof -
  from assms(1) have "u \<in> set (users s)" by (simp add: findUnique_phone_def find_Some_mem)
  note w = update_user_member [OF this]
  show ?thesis using assms by (simp add: resetPasswordWithOTP_def falsy_def w)
qed

lemma consume_outcomes:
  assumes "r = (if (now::int) > e
                then (Inl (BadRequestException ''OTP has expired. Please request a new one''), s)
                else if otp \<noteq> c then (Inl (BadRequestException ''Invalid OTP''), s)
                else (Inr (), s'))"
  shows "((fst r = Inl (BadRequestException ''OTP has expired. Please request a new one'')) = (now > e)) \<and>
      (now > e \<longrightarrow> r = (Inl (BadRequestException ''OTP has expired. Please request a new one''), s)) \<and>
      (now \<le> e \<and> otp \<noteq> c \<longrightarrow> r = (Inl (BadRequestException ''Invalid OTP''), s)) \<and>
      (now \<le> e \<and> otp = c \<longrightarrow> r = (Inr (), s'))"
  using assms by simp

section \<open>Daily counter\<close>

text \<open>
  Claim C1. On the first request of a new calendar date the stored counter is set to 0,
  but the daily limit is then checked on the \<open>user\<close> object read before the reset, and
  the stored counter on success is that stale value plus one. A user who used up the 3
  requests of the day before (last request at time 0, the request at 90000000, a day
  later) is therefore refused with the daily-limit message, by both issue functions,
  while the row is left with counter 0; a user with a stale count of 2 is served and left
  with counter 3, not 1.
\<close>

theorem daily_reset_stale_count:
  "generatePasswordResetOTP env0 90000000 90000000 90000000 ''123456'' True ''+2348012345678''
     (store [user0\<lparr>lastOtpRequestTime := Some 0, otpRequestCount := 3\<rparr>]) =
     (Inl (BadRequestException ''You have exceeded the maximum number of OTP requests (3) for today''),
      store [user0\<lparr>lastOtpRequestTime := Some 0, otpRequestCount := 0\<rparr>]) \<and>
   generatePhoneVerificationOTP env0 90000000 90000000 90000000 ''123456'' True ''u1''
     (store [user0\<lparr>lastOtpRequestTime := Some 0, otpRequestCount := 3\<rparr>]) =
     (Inl (BadRequestException ''You have exceeded the maximum number of OTP requests (3) for today''),
      store [user0\<lparr>lastOtpRequestTime := Some 0, otpRequestCount := 0\<rparr>]) \<and>
   toDateString env0 0 \<noteq> toDateString env0 90000000 \<and>
   map otpRequestCount (users (snd (generatePasswordResetOTP env0 90000000 90000000 90000000 ''123456''
     True ''+2348012345678'' (store [user0\<lparr>lastOtpRequestTime := Some 0, otpRequestCount := 2\<rparr>])))) = [3] \<and>
   map otpRequestCount (users (snd (generatePhoneVerificationOTP env0 90000000 90000000 90000000 ''123456''
     True ''u1'' (store [user0\<lparr>lastOtpRequestTime := Some 0, otpRequestCount := 2\<rparr>])))) = [3]"
  by code_simp

section \<open>Expiry boundary\<close>

text \<open>
  A code that expires at 600000 and is submitted at 600000 is accepted by each of the
  three consuming functions.
\<close>

theorem expiry_boundary_counterexample:
  "fst (verifyPhone 600000 ''+2348012345678'' ''123456'' (store [codeUser])) = Inr () \<and>
   fst (resetPasswordWithOTP env0 600000 ''+2348012345678'' ''654321'' ''NewPass1!'' (store [codeUser])) = Inr () \<and>
   fst (verifyEmail 600000 ''ada@example.com'' ''222222'' (store [emailCodeUser])) = Inr ()"
  by code_simp

text \<open>
  Claim C2, as the code has it. For a user that is found and has a populated slot,
  \<open>verifyPhone\<close> and \<open>verifyEmail\<close> (on a channel not yet verified) and
  \<open>resetPasswordWithOTP\<close> fail with the message \<open>OTP has expired. Please request a new one\<close>
  exactly when \<open>now\<close> is strictly later than the expiry of the slot, and then leave
  the state as it was. At the expiry itself and before it the call is decided by the
  comparison of the codes: a submitted code that differs from the stored one fails with
  \<open>Invalid OTP\<close> and changes nothing, an equal one succeeds with the update of the row.
  On a channel that is already verified \<open>verifyPhone\<close> and \<open>verifyEmail\<close> fail with
  their already-verified message whatever the time.
\<close>

theorem consume_expired_iff:
  "(findUnique_phone p (users s) = Some u \<and> \<not> isPhoneVerified u \<and>
      phoneVerificationOTP u = Some c \<and> c \<noteq> [] \<and> phoneVerificationOTPExpires u = Some e \<longrightarrow>
      ((fst (verifyPhone now p otp s) =
          Inl (BadRequestException ''OTP has expired. Please request a new one'')) = (now > e)) \<and>
      (now > e \<longrightarrow> verifyPhone now p otp s =
          (Inl (BadRequestException ''OTP has expired. Please request a new one''), s)) \<and>
      (now \<le> e \<and> otp \<noteq> c \<longrightarrow> verifyPhone now p otp s =
          (Inl (BadRequestException ''Invalid OTP''), s)) \<and>
      (now \<le> e \<and> otp = c \<longrightarrow> verifyPhone now p otp s =
          (Inr (), s\<lparr>users := map (\<lambda>r. if id' r = id' u
                                     then r\<lparr>isPhoneVerified := True,
                                            phoneVerificationOTP := None,
                                            phoneVerificationOTPExpires := None\<rparr>
                                     else r) (users s)\<rparr>))) \<and>
   (findUnique_email em (users s) = Some u \<and> \<not> isEmailVerified u \<and>
      emailVerificationOTP u = Some c \<and> c \<noteq> [] \<and> emailVerificationOTPExpires u = Some e \<longrightarrow>
      ((fst (verifyEmail now em otp s) =
          Inl (BadRequestException ''OTP has expired. Please request a new one'')) = (now > e)) \<and>
      (now > e \<longrightarrow> verifyEmail now em otp s =
          (Inl (BadRequestException ''OTP has expired. Please request a new one''), s)) \<and>
      (now \<le> e \<and> otp \<noteq> c \<longrightarrow> verifyEmail now em otp s =
          (Inl (BadRequestException ''Invalid OTP''), s)) \<and>
      (now \<le> e \<and> otp = c \<longrightarrow> verifyEmail now em otp s =
          (Inr (), s\<lparr>users := map (\<lambda>r. if id' r = id' u
                                     then r\<lparr>isEmailVerified := True,
                                            emailVerificationOTP := None,
                                            emailVerificationOTPExpires := None\<rparr>
                                     else r) (users s)\<rparr>))) \<and>
   (findUnique_phone p (users s) = Some u \<and>
      resetPasswordOTP u = Some c \<and> c \<noteq> [] \<and> resetPasswordOTPExpires u = Some e \<longrightarrow>
      ((fst (resetPasswordWithOTP env now p otp pw s) =
          Inl (BadRequestException ''OTP has expired. Please request a new one'')) = (now > e)) \<and>
      (now > e \<longrightarrow> resetPasswordWithOTP env now p otp pw s =
          (Inl (BadRequestException ''OTP has expired. Please request a new one''), s)) \<and>
      (now \<le> e \<and> otp \<noteq> c \<longrightarrow> resetPasswordWithOTP env now p otp pw s =
          (Inl (BadRequestException ''Invalid OTP''), s)) \<and>
      (now \<le> e \<and> otp = c \<longrightarrow> resetPasswordWithOTP env now p otp pw s =
          (Inr (), s\<lparr>users := map (\<lambda>r. if id' r = id' u
                                     then r\<lparr>password := bcrypt_hash env pw,
                                            resetPasswordOTP := None,
                                            resetPasswordOTPExpires := None\<rparr>
                                     else r) (users s)\<rparr>))) \<and>
   (findUnique_phone p (users s) = Some u \<and> isPhoneVerified u \<longrightarrow>
      verifyPhone now p otp s =
        (Inl (BadRequestException ''Phone number is already verified''), s)) \<and>
   (findUnique_email em (users s) = Some u \<and> isEmailVerified u \<longrightarrow>
      verifyEmail now em otp s =
        (Inl (BadRequestException ''Email is already verified''), s))"
proof (intro conjI impI; (elim conjE)?)
  assume "findUnique_phone p (users s) = Some u" "\<not> isPhoneVerified u"
    "phoneVerificationOTP u = Some c" "c \<noteq> []" "phoneVerificationOTPExpires u = Some e"
  note k = consume_outcomes [OF verifyPhone_populated [OF this, of now otp]]
  from k show "(fst (verifyPhone now p otp s) =
          Inl (BadRequestException ''OTP has expired. Please request a new one'')) = (now > e)"
    by (rule conjunct1)
  { assume "e < now"
    with k show "verifyPhone now p otp s =
          (Inl (BadRequestException ''OTP has expired. Please request a new one''), s)" by blast }
  { assume "now \<le> e" "otp \<noteq> c"
    with k show "verifyPhone now p otp s = (Inl (BadRequestException ''Invalid OTP''), s)" by blast }
  { assume "now \<le> e" "otp = c"
    with k show "verifyPhone now p otp s =
          (Inr (), s\<lparr>users := map (\<lambda>r. if id' r = id' u
                                     then r\<lparr>isPhoneVerified := True,
                                            phoneVerificationOTP := None,
                                            phoneVerificationOTPExpires := None\<rparr>
                                     else r) (users s)\<rparr>)" by blast }
next
  assume "findUnique_email em (users s) = Some u" "\<not> isEmailVerified u"
    "emailVerificationOTP u = Some c" "c \<noteq> []" "emailVerificationOTPExpires u = Some e"
  note k = consume_outcomes [OF verifyEmail_populated [OF this, of now otp]]
  from k show "(fst (verifyEmail now em otp s) =
          Inl (BadRequestException ''OTP has expired. Please request a new one'')) = (now > e)"
    by (rule conjunct1)
  { assume "e < now"
    with k show "verifyEmail now em otp s =
          (Inl (BadRequestException ''OTP has expired. Please request a new one''), s)" by blast }
  { assume "now \<le> e" "otp \<noteq> c"
    with k show "verifyEmail now em otp s = (Inl (BadRequestException ''Invalid OTP''), s)" by blast }
  { assume "now \<le> e" "otp = c"
    with k show "verifyEmail now em otp s =
          (Inr (), s\<lparr>users := map (\<lambda>r. if id' r = id' u
                                     then r\<lparr>isEmailVerified := True,
                                            emailVerificationOTP := None,
                                            emailVerificationOTPExpires := None\<rparr>
                                     else r) (users s)\<rparr>)" by blast }
next
  assume "findUnique_phone p (users s) = Some u"
    "resetPasswordOTP u = Some c" "c \<noteq> []" "resetPasswordOTPExpires u = Some e"
  note k = consume_outcomes [OF resetPasswordWithOTP_populated [OF this, of env now otp pw]]
  from k show "(fst (resetPasswordWithOTP env now p otp pw s) =
          Inl (BadRequestException ''OTP has expired. Please request a new one'')) = (now > e)"
    by (rule conjunct1)
  { assume "e < now"
    with k show "resetPasswordWithOTP env now p otp pw s =
          (Inl (BadRequestException ''OTP has expired. Please request a new one''), s)" by blast }
  { assume "now \<le> e" "otp \<noteq> c"
    with k show "resetPasswordWithOTP env now p otp pw s =
          (Inl (BadRequestException ''Invalid OTP''), s)" by blast }
  { assume "now \<le> e" "otp = c"
    with k show "resetPasswordWithOTP env now p otp pw s =
          (Inr (), s\<lparr>users := map (\<lambda>r. if id' r = id' u
                                     then r\<lparr>password := bcrypt_hash env pw,
                                            resetPasswordOTP := None,
                                            resetPasswordOTPExpires := None\<rparr>
                                     else r) (users s)\<rparr>)" by blast }
next
  assume "findUnique_phone p (users s) = Some u" "isPhoneVerified u"
  then show "verifyPhone now p otp s =
        (Inl (BadRequestException ''Phone number is already verified''), s)"
    by (simp add: verifyPhone_def)
next
  assume "findUnique_email em (users s) = Some u" "isEmailVerified u"
  then show "verifyEmail now em otp s =
        (Inl (BadRequestException ''Email is already verified''), s)"
    by (simp add: verifyEmail_def)
qed

theorem consume_expired_iff_witness:
  "verifyPhone 600001 ''+2348012345678'' ''123456'' (store [codeUser]) =
     (Inl (BadRequestException ''OTP has expired. Please request a new one''), store [codeUser]) \<and>
   verifyPhone 600000 ''+2348012345678'' ''000000'' (store [codeUser]) =
     (Inl (BadRequestException ''Invalid OTP''), store [codeUser]) \<and>
   fst (verifyPhone 600000 ''+2348012345678'' ''123456'' (store [codeUser])) = Inr () \<and>
   verifyEmail 600001 ''ada@example.com'' ''222222'' (store [emailCodeUser]) =
     (Inl (BadRequestException ''OTP has expired. Please request a new one''), store [emailCodeUser]) \<and>
   verifyEmail 600000 ''ada@example.com'' ''000000'' (store [emailCodeUser]) =
     (Inl (BadRequestException ''Invalid OTP''), store [emailCodeUser]) \<and>
   fst (verifyEmail 600000 ''ada@example.com'' ''222222'' (store [emailCodeUser])) = Inr () \<and>
   resetPasswordWithOTP env0 600001 ''+2348012345678'' ''654321'' ''NewPass1!'' (store [codeUser]) =
     (Inl (BadRequestException ''OTP has expired. Please request a new one''), store [codeUser]) \<and>
   resetPasswordWithOTP env0 600000 ''+2348012345678'' ''000000'' ''NewPass1!'' (store [codeUser]) =
     (Inl (BadRequestException ''Invalid OTP''), store [codeUser]) \<and>
   fst (resetPasswordWithOTP env0 600000 ''+2348012345678'' ''654321'' ''NewPass1!'' (store [codeUser])) =
     Inr () \<and>
   verifyPhone 600001 ''+2348012345678'' ''123456'' (store [codeUser\<lparr>isPhoneVerified := True\<rparr>]) =
     (Inl (BadRequestException ''Phone number is already verified''),
      store [codeUser\<lparr>isPhoneVerified := True\<rparr>]) \<and>
   verifyEmail 600001 ''ada@example.com'' ''222222'' (store [emailCodeUser\<lparr>isEmailVerified := True\<rparr>]) =
     (Inl (BadRequestException ''Email is already verified''),
      store [emailCodeUser\<lparr>isEmailVerified := True\<rparr>])"
proof -
  have a: "findUnique_phone ''+2348012345678'' (users (store [codeUser])) = Some codeUser \<and>
      \<not> isPhoneVerified codeUser \<and> phoneVerificationOTP codeUser = Some ''123456'' \<and>
      ''123456'' \<noteq> [] \<and> phoneVerificationOTPExpires codeUser = Some 600000"
    by (simp add: findUnique_phone_def store_def codeUser_def user0_def)
  have b: "findUnique_email ''ada@example.com'' (users (store [emailCodeUser])) = Some emailCodeUser \<and>
      \<not> isEmailVerified emailCodeUser \<and> emailVerificationOTP emailCodeUser = Some ''222222'' \<and>
      ''222222'' \<noteq> [] \<and> emailVerificationOTPExpires emailCodeUser = Some 600000"
    by (simp add: findUnique_email_def store_def emailCodeUser_def user0_def)
  have c: "findUnique_phone ''+2348012345678'' (users (store [codeUser])) = Some codeUser \<and>
      resetPasswordOTP codeUser = Some ''654321'' \<and>
      ''654321'' \<noteq> [] \<and> resetPasswordOTPExpires codeUser = Some 600000"
    by (simp add: findUnique_phone_def store_def codeUser_def user0_def)
  have lt: "(600001::int) > 600000" and le: "(600000::int) \<le> 600000" by simp_all
  have n1: "''000000'' \<noteq> ''123456''" and n2: "''000000'' \<noteq> ''222222''"
    and n3: "''000000'' \<noteq> ''654321''"
    by simp_all
  note 1 = consume_expired_iff [where p = "''+2348012345678''" and s = "store [codeUser]"
        and u = codeUser and c = "''123456''" and e = 600000 and now = 600001 and otp = "''123456''",
        THEN conjunct1, THEN mp, OF a,
      THEN conjunct2, THEN conjunct1, THEN mp, OF lt]
  note 2 = consume_expired_iff [where p = "''+2348012345678''" and s = "store [codeUser]"
        and u = codeUser and c = "''123456''" and e = 600000 and now = 600000 and otp = "''000000''",
        THEN conjunct1, THEN mp, OF a,
      THEN conjunct2, THEN conjunct2, THEN conjunct1, THEN mp, OF conjI [OF le n1]]
  note 3 = consume_expired_iff [where p = "''+2348012345678''" and s = "store [codeUser]"
        and u = codeUser and c = "''123456''" and e = 600000 and now = 600000 and otp = "''123456''",
        THEN conjunct1, THEN mp, OF a,
      THEN conjunct2, THEN conjunct2, THEN conjunct2, THEN mp, OF conjI [OF le refl],
     THEN arg_cong [where f = fst], unfolded fst_conv]
  note 4 = consume_expired_iff [where em = "''ada@example.com''" and s = "store [emailCodeUser]"
        and u = emailCodeUser and c = "''222222''" and e = 600000 and now = 600001 and otp = "''222222''",
        THEN conjunct2, THEN conjunct1, THEN mp, OF b,
      THEN conjunct2, THEN conjunct1, THEN mp, OF lt]
  note 5 = consume_expired_iff [where em = "''ada@example.com''" and s = "store [emailCodeUser]"
        and u = emailCodeUser and c = "''222222''" and e = 600000 and now = 600000 and otp = "''000000''",
        THEN conjunct2, THEN conjunct1, THEN mp, OF b,
      THEN conjunct2, THEN conjunct2, THEN conjunct1, THEN mp, OF conjI [OF le n2]]
  note 6 = consume_expired_iff [where em = "''ada@example.com''" and s = "store [emailCodeUser]"
        and u = emailCodeUser and c = "''222222''" and e = 600000 and now = 600000 and otp = "''222222''",
        THEN conjunct2, THEN conjunct1, THEN mp, OF b,
      THEN conjunct2, THEN conjunct2, THEN conjunct2, THEN mp, OF conjI [OF le refl],
     THEN arg_cong [where f = fst], unfolded fst_conv]
  note 7 = consume_expired_iff [where p = "''+2348012345678''" and s = "store [codeUser]"
        and u = codeUser and c = "''654321''" and e = 600000 and now = 600001 and otp = "''654321''"
        and env = env0 and pw = "''NewPass1!''", THEN conjunct2, THEN conjunct2, THEN conjunct1, THEN mp, OF c,
      THEN conjunct2, THEN conjunct1, THEN mp, OF lt]
  note 8 = consume_expired_iff [where p = "''+2348012345678''" and s = "store [codeUser]"
        and u = codeUser and c = "''654321''" and e = 600000 and now = 600000 and otp = "''000000''"
        and env = env0 and pw = "''NewPass1!''", THEN conjunct2, THEN conjunct2, THEN conjunct1, THEN mp, OF c,
      THEN conjunct2, THEN conjunct2, THEN conjunct1, THEN mp, OF conjI [OF le n3]]
  note 9 = consume_expired_iff [where p = "''+2348012345678''" and s = "store [codeUser]"
        and u = codeUser and c = "''654321''" and e = 600000 and now = 600000 and otp = "''654321''"
        and env = env0 and pw = "''NewPass1!''", THEN conjunct2, THEN conjunct2, THEN conjunct1, THEN mp, OF c,
      THEN conjunct2, THEN conjunct2, THEN conjunct2, THEN mp, OF conjI [OF le refl],
     THEN arg_cong [where f = fst], unfolded fst_conv]
  have d: "findUnique_phone ''+2348012345678'' (users (store [codeUser\<lparr>isPhoneVerified := True\<rparr>])) =
        Some (codeUser\<lparr>isPhoneVerified := True\<rparr>) \<and> isPhoneVerified (codeUser\<lparr>isPhoneVerified := True\<rparr>)"
    by (simp add: findUnique_phone_def store_def codeUser_def user0_def)
  have f: "findUnique_email ''ada@example.com'' (users (store [emailCodeUser\<lparr>isEmailVerified := True\<rparr>])) =
        Some (emailCodeUser\<lparr>isEmailVerified := True\<rparr>) \<and>
      isEmailVerified (emailCodeUser\<lparr>isEmailVerified := True\<rparr>)"
    by (simp add: findUnique_email_def store_def emailCodeUser_def user0_def)
  note 10 = consume_expired_iff [where p = "''+2348012345678''"
      and s = "store [codeUser\<lparr>isPhoneVerified := True\<rparr>]"
      and u = "codeUser\<lparr>isPhoneVerified := True\<rparr>" and now = 600001 and otp = "''123456''",
      THEN conjunct2, THEN conjunct2, THEN conjunct2, THEN conjunct1, THEN mp, OF d]
  note 11 = consume_expired_iff [where em = "''ada@example.com''"
      and s = "store [emailCodeUser\<lparr>isEmailVerified := True\<rparr>]"
      and u = "emailCodeUser\<lparr>isEmailVerified := True\<rparr>" and now = 600001 and otp = "''222222''",
      THEN conjunct2, THEN conjunct2, THEN conjunct2, THEN conjunct2, THEN mp, OF f]
  show ?thesis by (intro conjI 1 2 3 4 5 6 7 8 9 10 11)
qed

section \<open>What a password reset clears\<close>

text \<open>
  A user holding both a reset code and a reset token: after a successful
  \<open>resetPasswordWithOTP\<close> the token is still stored, and after a successful
  \<open>resetPassword\<close> the code is still stored.
\<close>

theorem reset_clears_both_counterexample:
  "fst (resetPasswordWithOTP env0 1000 ''+2348012345678'' ''654321'' ''NewPass1!'' (store [codeUser])) = Inr () \<and>
   map resetPasswordToken (users (snd (resetPasswordWithOTP env0 1000 ''+2348012345678'' ''654321''
     ''NewPass1!'' (store [codeUser])))) = [Some ''9f2c''] \<and>
   fst (resetPassword env0 1000 ''9f2c'' ''NewPass1!'' (store [codeUser])) = Inr () \<and>
   map resetPasswordOTP (users (snd (resetPassword env0 1000 ''9f2c'' ''NewPass1!'' (store [codeUser]))))
     = [Some ''654321'']"
  by code_simp

text \<open>
  Claim C3, as the code has it. A successful \<open>resetPasswordWithOTP\<close> changes the row of
  the user it found, in one update, to the new password hash with the reset code and its
  expiry cleared; the reset token and its expiry of every row stay as they were. A
  successful \<open>resetPassword\<close> changes the row it found to the new password hash with the
  reset token and its expiry cleared; the reset code and its expiry of every row stay as
  they were. Nothing else in the state changes.
\<close>

theorem reset_clears_own_credential:
  "(resetPasswordWithOTP env now p otp pw s = (Inr (), s') \<longrightarrow>
      (\<exists>u. findUnique_phone p (users s) = Some u \<and>
           s' = s\<lparr>users := map (\<lambda>r. if id' r = id' u
                                     then r\<lparr>password := bcrypt_hash env pw,
                                            resetPasswordOTP := None,
                                            resetPasswordOTPExpires := None\<rparr>
                                     else r) (users s)\<rparr> \<and>
           findUnique_phone p (users s') =
             Some (u\<lparr>password := bcrypt_hash env pw, resetPasswordOTP := None,
                     resetPasswordOTPExpires := None\<rparr>)) \<and>
      map resetPasswordToken (users s') = map resetPasswordToken (users s) \<and>
      map resetPasswordExpires (users s') = map resetPasswordExpires (users s)) \<and>
   (resetPassword env now tok pw s = (Inr (), s') \<longrightarrow>
      (\<exists>u. findFirst_resetToken tok now (users s) = Some u \<and>
           s' = s\<lparr>users := map (\<lambda>r. if id' r = id' u
                                     then r\<lparr>password := bcrypt_hash env pw,
                                            resetPasswordToken := None,
                                            resetPasswordExpires := None\<rparr>
                                     else r) (users s)\<rparr>) \<and>
      map resetPasswordOTP (users s') = map resetPasswordOTP (users s) \<and>
      map resetPasswordOTPExpires (users s') = map resetPasswordOTPExpires (users s))"
proof (intro conjI impI)
  assume a: "resetPasswordWithOTP env now p otp pw s = (Inr (), s')"
  let ?f = "\<lambda>r. r\<lparr>password := bcrypt_hash env pw, resetPasswordOTP := None,
                    resetPasswordOTPExpires := None\<rparr>"
  from a obtain u where u: "findUnique_phone p (users s) = Some u"
    and w: "update_user (id' u) ?f (users s) = Inr (users s')" and e: "s' = s\<lparr>users := users s'\<rparr>"
    by (auto simp: resetPasswordWithOTP_def split: option.splits if_splits sum.splits)
  from u have f: "find (\<lambda>v. phone v = p) (users s) = Some u"
    by (simp add: findUnique_phone_def)
  then have m: "u \<in> set (users s)" by (simp add: find_Some_mem)
  from w have us': "users s' = map (\<lambda>r. if id' r = id' u then ?f r else r) (users s)"
    by (simp add: update_user_member [OF m])
  have "find (\<lambda>v. phone v = p) (users s') = Some (?f u)"
    by (rule find_update_user [OF f _ w]) simp
  with u e us' show "\<exists>u. findUnique_phone p (users s) = Some u \<and>
           s' = s\<lparr>users := map (\<lambda>r. if id' r = id' u then ?f r else r) (users s)\<rparr> \<and>
           findUnique_phone p (users s') = Some (?f u)"
    by (intro exI [of _ u]) (simp add: findUnique_phone_def)
  show "map resetPasswordToken (users s') = map resetPasswordToken (users s)"
    by (rule map_field_update_user [OF w]) simp
  show "map resetPasswordExpires (users s') = map resetPasswordExpires (users s)"
    by (rule map_field_update_user [OF w]) simp
next
  assume a: "resetPassword env now tok pw s = (Inr (), s')"
  let ?f = "\<lambda>r. r\<lparr>password := bcrypt_hash env pw, resetPasswordToken := None,
                    resetPasswordExpires := None\<rparr>"
  from a obtain u where u: "findFirst_resetToken tok now (users s) = Some u"
    and w: "update_user (id' u) ?f (users s) = Inr (users s')" and e: "s' = s\<lparr>users := users s'\<rparr>"
    by (auto simp: resetPassword_def split: option.splits if_splits sum.splits)
  from u have m: "u \<in> set (users s)"
    by (simp add: findFirst_resetToken_def find_Some_mem)
  from w have us': "users s' = map (\<lambda>r. if id' r = id' u then ?f r else r) (users s)"
    by (simp add: update_user_member [OF m])
  with u e show "\<exists>u. findFirst_resetToken tok now (users s) = Some u \<and>
           s' = s\<lparr>users := map (\<lambda>r. if id' r = id' u then ?f r else r) (users s)\<rparr>"
    by (intro exI [of _ u]) simp
  show "map resetPasswordOTP (users s') = map resetPasswordOTP (users s)"
    by (rule map_field_update_user [OF w]) simp
  show "map resetPasswordOTPExpires (users s') = map resetPasswordOTPExpires (users s)"
    by (rule map_field_update_user [OF w]) simp
qed

theorem reset_clears_own_credential_witness:
  "resetPasswordWithOTP env0 1000 ''+2348012345678'' ''654321'' ''NewPass1!'' (store [codeUser]) =
     (Inr (), store [codeUser\<lparr>password := ''$2b$10$NewPass1!'', resetPasswordOTP := None,
                               resetPasswordOTPExpires := None\<rparr>]) \<and>
   resetPassword env0 1000 ''9f2c'' ''NewPass1!'' (store [codeUser]) =
     (Inr (), store [codeUser\<lparr>password := ''$2b$10$NewPass1!'', resetPasswordToken := None,
                               resetPasswordExpires := None\<rparr>])"
proof -
  let ?a = "resetPasswordWithOTP env0 1000 ''+2348012345678'' ''654321'' ''NewPass1!'' (store [codeUser])"
  let ?b = "resetPassword env0 1000 ''9f2c'' ''NewPass1!'' (store [codeUser])"
  have "fst ?a = Inr ()" by code_simp
  then obtain sa where a: "?a = (Inr (), sa)" by (cases ?a) simp
  have "fst ?b = Inr ()" by code_simp
  then obtain sb where b: "?b = (Inr (), sb)" by (cases ?b) simp
  have fa: "findUnique_phone ''+2348012345678'' (users (store [codeUser])) = Some codeUser"
    by (simp add: findUnique_phone_def store_def codeUser_def user0_def)
  have fb: "findFirst_resetToken ''9f2c'' 1000 (users (store [codeUser])) = Some codeUser"
    by (simp add: findFirst_resetToken_def holdsToken_def store_def codeUser_def user0_def)
  from reset_clears_own_credential [where env = env0 and now = 1000 and p = "''+2348012345678''"
      and otp = "''654321''" and pw = "''NewPass1!''" and s = "store [codeUser]" and s' = sa] a
  obtain u where "findUnique_phone ''+2348012345678'' (users (store [codeUser])) = Some u"
    and "sa = (store [codeUser])\<lparr>users := map (\<lambda>r. if id' r = id' u
                                     then r\<lparr>password := bcrypt_hash env0 ''NewPass1!'',
                                            resetPasswordOTP := None,
                                            resetPasswordOTPExpires := None\<rparr>
                                     else r) (users (store [codeUser]))\<rparr>"
    by blast
  with fa have "sa = (store [codeUser])\<lparr>users := map (\<lambda>r. if id' r = id' codeUser
                                     then r\<lparr>password := bcrypt_hash env0 ''NewPass1!'',
                                            resetPasswordOTP := None,
                                            resetPasswordOTPExpires := None\<rparr>
                                     else r) (users (store [codeUser]))\<rparr>"
    by simp
  then have 1: "sa = store [codeUser\<lparr>password := ''$2b$10$NewPass1!'', resetPasswordOTP := None,
                               resetPasswordOTPExpires := None\<rparr>]"
    by (simp add: store_def env0_def)
  from reset_clears_own_credential [where env = env0 and now = 1000 and tok = "''9f2c''"
      and pw = "''NewPass1!''" and s = "store [codeUser]" and s' = sb] b
  obtain v where "findFirst_resetToken ''9f2c'' 1000 (users (store [codeUser])) = Some v"
    and "sb = (store [codeUser])\<lparr>users := map (\<lambda>r. if id' r = id' v
                                     then r\<lparr>password := bcrypt_hash env0 ''NewPass1!'',
                                            resetPasswordToken := None,
                                            resetPasswordExpires := None\<rparr>
                                     else r) (users (store [codeUser]))\<rparr>"
    by blast
  with fb have "sb = (store [codeUser])\<lparr>users := map (\<lambda>r. if id' r = id' codeUser
                                     then r\<lparr>password := bcrypt_hash env0 ''NewPass1!'',
                                            resetPasswordToken := None,
                                            resetPasswordExpires := None\<rparr>
                                     else r) (users (store [codeUser]))\<rparr>"
    by simp
  then have 2: "sb = store [codeUser\<lparr>password := ''$2b$10$NewPass1!'', resetPasswordToken := None,
                               resetPasswordExpires := None\<rparr>]"
    by (simp add: store_def env0_def)
  from a b 1 2 show ?thesis by simp
qed

section \<open>Single use of a code\<close>

text \<open>
  After a successful \<open>verifyPhone\<close> a second attempt with the same code fails with
  \<open>Phone number is already verified\<close>, not with the message of an empty slot.
\<close>

theorem second_consume_counterexample:
  "fst (verifyPhone 1000 ''+2348012345678'' ''123456'' (store [codeUser])) = Inr () \<and>
   fst (verifyPhone 2000 ''+2348012345678'' ''123456''
          (snd (verifyPhone 1000 ''+2348012345678'' ''123456'' (store [codeUser])))) =
     Inl (BadRequestException ''Phone number is already verified'')"
  by code_simp

text \<open>
  Claim C4, as the code has it. With a populated slot and a matching code that has not
  expired, \<open>resetPasswordWithOTP\<close> succeeds, and \<open>verifyPhone\<close> and \<open>verifyEmail\<close>
  succeed when the channel is not yet verified; on a channel that is already verified
  they fail with their already-verified message and change nothing, the slot included.
  The single update of a successful consume both clears the slot and applies the effect
  (phone verified, email verified, or new password hash stored). Any later attempt on the
  resulting state fails: \<open>resetPasswordWithOTP\<close> with
  \<open>No OTP found. Please request a new one\<close>, \<open>verifyPhone\<close> and \<open>verifyEmail\<close> with
  their already-verified message, which is checked before the slot is looked at.
\<close>

theorem consume_once:
  "(findUnique_phone p (users s) = Some u \<and> \<not> isPhoneVerified u \<and>
      phoneVerificationOTP u = Some otp \<and> otp \<noteq> [] \<and>
      phoneVerificationOTPExpires u = Some e \<and> now \<le> e \<longrightarrow>
      (\<exists>s1. verifyPhone now p otp s = (Inr (), s1) \<and>
            findUnique_phone p (users s1) =
              Some (u\<lparr>isPhoneVerified := True, phoneVerificationOTP := None,
                      phoneVerificationOTPExpires := None\<rparr>) \<and>
            verifyPhone now2 p otp2 s1 =
              (Inl (BadRequestException ''Phone number is already verified''), s1))) \<and>
   (findUnique_phone p (users s) = Some u \<and> isPhoneVerified u \<longrightarrow>
      verifyPhone now p otp s =
        (Inl (BadRequestException ''Phone number is already verified''), s)) \<and>
   (findUnique_email em (users s) = Some u \<and> \<not> isEmailVerified u \<and>
      emailVerificationOTP u = Some otp \<and> otp \<noteq> [] \<and>
      emailVerificationOTPExpires u = Some e \<and> now \<le> e \<longrightarrow>
      (\<exists>s1. verifyEmail now em otp s = (Inr (), s1) \<and>
            findUnique_email em (users s1) =
              Some (u\<lparr>isEmailVerified := True, emailVerificationOTP := None,
                      emailVerificationOTPExpires := None\<rparr>) \<and>
            verifyEmail now2 em otp2 s1 =
              (Inl (BadRequestException ''Email is already verified''), s1))) \<and>
   (findUnique_email em (users s) = Some u \<and> isEmailVerified u \<longrightarrow>
      verifyEmail now em otp s =
        (Inl (BadRequestException ''Email is already verified''), s)) \<and>
   (findUnique_phone p (users s) = Some u \<and>
      resetPasswordOTP u = Some otp \<and> otp \<noteq> [] \<and>
      resetPasswordOTPExpires u = Some e \<and> now \<le> e \<longrightarrow>
      (\<exists>s1. resetPasswordWithOTP env now p otp pw s = (Inr (), s1) \<and>
            findUnique_phone p (users s1) =
              Some (u\<lparr>password := bcrypt_hash env pw, resetPasswordOTP := None,
                      resetPasswordOTPExpires := None\<rparr>) \<and>
            resetPasswordWithOTP env now2 p otp2 pw2 s1 =
              (Inl (BadRequestException ''No OTP found. Please request a new one''), s1)))"
proof (intro conjI impI)
  assume a: "findUnique_phone p (users s) = Some u \<and> \<not> isPhoneVerified u \<and>
      phoneVerificationOTP u = Some otp \<and> otp \<noteq> [] \<and>
      phoneVerificationOTPExpires u = Some e \<and> now \<le> e"
  let ?f = "\<lambda>r. r\<lparr>isPhoneVerified := True, phoneVerificationOTP := None,
                    phoneVerificationOTPExpires := None\<rparr>"
  let ?us = "map (\<lambda>r. if id' r = id' u then ?f r else r) (users s)"
  from a have f: "find (\<lambda>v. phone v = p) (users s) = Some u"
    by (simp add: findUnique_phone_def)
  then have m: "u \<in> set (users s)" by (simp add: find_Some_mem)
  have w: "update_user (id' u) ?f (users s) = Inr ?us"
    by (rule update_user_member [OF m])
  have "find (\<lambda>v. phone v = p) ?us = Some (?f u)"
    by (rule find_update_user [OF f _ w]) simp
  then have g: "findUnique_phone p ?us = Some (?f u)"
    by (simp add: findUnique_phone_def)
  have 1: "verifyPhone now p otp s = (Inr (), s\<lparr>users := ?us\<rparr>)"
    using a w by (simp add: verifyPhone_def falsy_def)
  have 2: "verifyPhone now2 p otp2 (s\<lparr>users := ?us\<rparr>) =
      (Inl (BadRequestException ''Phone number is already verified''), s\<lparr>users := ?us\<rparr>)"
    using g by (simp add: verifyPhone_def)
  from 1 2 g show "\<exists>s1. verifyPhone now p otp s = (Inr (), s1) \<and>
            findUnique_phone p (users s1) = Some (?f u) \<and>
            verifyPhone now2 p otp2 s1 =
              (Inl (BadRequestException ''Phone number is already verified''), s1)"
    by (intro exI [of _ "s\<lparr>users := ?us\<rparr>"]) simp
next
  assume "findUnique_phone p (users s) = Some u \<and> isPhoneVerified u"
  then show "verifyPhone now p otp s =
        (Inl (BadRequestException ''Phone number is already verified''), s)"
    by (simp add: verifyPhone_def)
next
  assume a: "findUnique_email em (users s) = Some u \<and> \<not> isEmailVerified u \<and>
      emailVerificationOTP u = Some otp \<and> otp \<noteq> [] \<and>
      emailVerificationOTPExpires u = Some e \<and> now \<le> e"
  let ?f = "\<lambda>r. r\<lparr>isEmailVerified := True, emailVerificationOTP := None,
                    emailVerificationOTPExpires := None\<rparr>"
  let ?us = "map (\<lambda>r. if id' r = id' u then ?f r else r) (users s)"
  from a have f: "find (\<lambda>v. email v = em) (users s) = Some u"
    by (simp add: findUnique_email_def)
  then have m: "u \<in> set (users s)" by (simp add: find_Some_mem)
  have w: "update_user (id' u) ?f (users s) = Inr ?us"
    by (rule update_user_member [OF m])
  have "find (\<lambda>v. email v = em) ?us = Some (?f u)"
    by (rule find_update_user [OF f _ w]) simp
  then have g: "findUnique_email em ?us = Some (?f u)"
    by (simp add: findUnique_email_def)
  have 1: "verifyEmail now em otp s = (Inr (), s\<lparr>users := ?us\<rparr>)"
    using a w by (simp add: verifyEmail_def falsy_def)
  have 2: "verifyEmail now2 em otp2 (s\<lparr>users := ?us\<rparr>) =
      (Inl (BadRequestException ''Email is already verified''), s\<lparr>users := ?us\<rparr>)"
    using g by (simp add: verifyEmail_def)
  from 1 2 g show "\<exists>s1. verifyEmail now em otp s = (Inr (), s1) \<and>
            findUnique_email em (users s1) = Some (?f u) \<and>
            verifyEmail now2 em otp2 s1 =
              (Inl (BadRequestException ''Email is already verified''), s1)"
    by (intro exI [of _ "s\<lparr>users := ?us\<rparr>"]) simp
next
  assume "findUnique_email em (users s) = Some u \<and> isEmailVerified u"
  then show "verifyEmail now em otp s =
        (Inl (BadRequestException ''Email is already verified''), s)"
    by (simp add: verifyEmail_def)
next
  assume a: "findUnique_phone p (users s) = Some u \<and>
      resetPasswordOTP u = Some otp \<and> otp \<noteq> [] \<and>
      resetPasswordOTPExpires u = Some e \<and> now \<le> e"
  let ?f = "\<lambda>r. r\<lparr>password := bcrypt_hash env pw, resetPasswordOTP := None,
                    resetPasswordOTPExpires := None\<rparr>"
  let ?us = "map (\<lambda>r. if id' r = id' u then ?f r else r) (users s)"
  from a have f: "find (\<lambda>v. phone v = p) (users s) = Some u"
    by (simp add: findUnique_phone_def)
  then have m: "u \<in> set (users s)" by (simp add: find_Some_mem)
  have w: "update_user (id' u) ?f (users s) = Inr ?us"
    by (rule update_user_member [OF m])
  have "find (\<lambda>v. phone v = p) ?us = Some (?f u)"
    by (rule find_update_user [OF f _ w]) simp
  then have g: "findUnique_phone p ?us = Some (?f u)"
    by (simp add: findUnique_phone_def)
  have 1: "resetPasswordWithOTP env now p otp pw s = (Inr (), s\<lparr>users := ?us\<rparr>)"
    using a w by (simp add: resetPasswordWithOTP_def falsy_def)
  have 2: "resetPasswordWithOTP env now2 p otp2 pw2 (s\<lparr>users := ?us\<rparr>) =
      (Inl (BadRequestException ''No OTP found. Please request a new one''), s\<lparr>users := ?us\<rparr>)"
    using g by (simp add: resetPasswordWithOTP_def)
  from 1 2 g show "\<exists>s1. resetPasswordWithOTP env now p otp pw s = (Inr (), s1) \<and>
            findUnique_phone p (users s1) = Some (?f u) \<and>
            resetPasswordWithOTP env now2 p otp2 pw2 s1 =
              (Inl (BadRequestException ''No OTP found. Please request a new one''), s1)"
    by (intro exI [of _ "s\<lparr>users := ?us\<rparr>"]) simp
qed

theorem consume_once_witness:
  "fst (verifyPhone 1000 ''+2348012345678'' ''123456'' (store [codeUser])) = Inr () \<and>
   fst (verifyPhone 2000 ''+2348012345678'' ''123456''
          (snd (verifyPhone 1000 ''+2348012345678'' ''123456'' (store [codeUser])))) =
     Inl (BadRequestException ''Phone number is already verified'') \<and>
   fst (verifyEmail 1000 ''ada@example.com'' ''222222'' (store [emailCodeUser])) = Inr () \<and>
   fst (verifyEmail 2000 ''ada@example.com'' ''222222''
          (snd (verifyEmail 1000 ''ada@example.com'' ''222222'' (store [emailCodeUser])))) =
     Inl (BadRequestException ''Email is already verified'') \<and>
   fst (resetPasswordWithOTP env0 1000 ''+2348012345678'' ''654321'' ''NewPass1!'' (store [codeUser])) =
     Inr () \<and>
   fst (resetPasswordWithOTP env0 2000 ''+2348012345678'' ''654321'' ''Other2!''
          (snd (resetPasswordWithOTP env0 1000 ''+2348012345678'' ''654321'' ''NewPass1!''
                  (store [codeUser])))) =
     Inl (BadRequestException ''No OTP found. Please request a new one'') \<and>
   verifyPhone 1000 ''+2348012345678'' ''123456'' (store [codeUser\<lparr>isPhoneVerified := True\<rparr>]) =
     (Inl (BadRequestException ''Phone number is already verified''),
      store [codeUser\<lparr>isPhoneVerified := True\<rparr>]) \<and>
   verifyEmail 1000 ''ada@example.com'' ''222222'' (store [emailCodeUser\<lparr>isEmailVerified := True\<rparr>]) =
     (Inl (BadRequestException ''Email is already verified''),
      store [emailCodeUser\<lparr>isEmailVerified := True\<rparr>])"
proof -
  have a: "findUnique_phone ''+2348012345678'' (users (store [codeUser])) = Some codeUser \<and>
      \<not> isPhoneVerified codeUser \<and> phoneVerificationOTP codeUser = Some ''123456'' \<and>
      ''123456'' \<noteq> [] \<and> phoneVerificationOTPExpires codeUser = Some 600000 \<and> (1000::int) \<le> 600000"
    by (simp add: findUnique_phone_def store_def codeUser_def user0_def)
  have b: "findUnique_email ''ada@example.com'' (users (store [emailCodeUser])) = Some emailCodeUser \<and>
      \<not> isEmailVerified emailCodeUser \<and> emailVerificationOTP emailCodeUser = Some ''222222'' \<and>
      ''222222'' \<noteq> [] \<and> emailVerificationOTPExpires emailCodeUser = Some 600000 \<and>
      (1000::int) \<le> 600000"
    by (simp add: findUnique_email_def store_def emailCodeUser_def user0_def)
  have c: "findUnique_phone ''+2348012345678'' (users (store [codeUser])) = Some codeUser \<and>
      resetPasswordOTP codeUser = Some ''654321'' \<and>
      ''654321'' \<noteq> [] \<and> resetPasswordOTPExpires codeUser = Some 600000 \<and> (1000::int) \<le> 600000"
    by (simp add: findUnique_phone_def store_def codeUser_def user0_def)
  from consume_once [where p = "''+2348012345678''" and s = "store [codeUser]" and u = codeUser
      and otp = "''123456''" and e = 600000 and now = 1000 and ?now2.0 = 2000
      and ?otp2.0 = "''123456''"] a
  obtain s1 where 1: "verifyPhone 1000 ''+2348012345678'' ''123456'' (store [codeUser]) = (Inr (), s1)"
    and 2: "verifyPhone 2000 ''+2348012345678'' ''123456'' s1 =
              (Inl (BadRequestException ''Phone number is already verified''), s1)"
    by blast
  from consume_once [where em = "''ada@example.com''" and s = "store [emailCodeUser]"
      and u = emailCodeUser and otp = "''222222''" and e = 600000 and now = 1000 and ?now2.0 = 2000
      and ?otp2.0 = "''222222''"] b
  obtain s2 where 3: "verifyEmail 1000 ''ada@example.com'' ''222222'' (store [emailCodeUser]) = (Inr (), s2)"
    and 4: "verifyEmail 2000 ''ada@example.com'' ''222222'' s2 =
              (Inl (BadRequestException ''Email is already verified''), s2)"
    by blast
  from consume_once [where p = "''+2348012345678''" and s = "store [codeUser]" and u = codeUser
      and otp = "''654321''" and e = 600000 and now = 1000 and ?now2.0 = 2000
      and ?otp2.0 = "''654321''" and env = env0 and pw = "''NewPass1!''" and ?pw2.0 = "''Other2!''"] c
  obtain s3 where 5: "resetPasswordWithOTP env0 1000 ''+2348012345678'' ''654321'' ''NewPass1!''
              (store [codeUser]) = (Inr (), s3)"
    and 6: "resetPasswordWithOTP env0 2000 ''+2348012345678'' ''654321'' ''Other2!'' s3 =
              (Inl (BadRequestException ''No OTP found. Please request a new one''), s3)"
    by blast
  have d: "findUnique_phone ''+2348012345678'' (users (store [codeUser\<lparr>isPhoneVerified := True\<rparr>])) =
        Some (codeUser\<lparr>isPhoneVerified := True\<rparr>) \<and> isPhoneVerified (codeUser\<lparr>isPhoneVerified := True\<rparr>)"
    by (simp add: findUnique_phone_def store_def codeUser_def user0_def)
  have f: "findUnique_email ''ada@example.com'' (users (store [emailCodeUser\<lparr>isEmailVerified := True\<rparr>])) =
        Some (emailCodeUser\<lparr>isEmailVerified := True\<rparr>) \<and>
      isEmailVerified (emailCodeUser\<lparr>isEmailVerified := True\<rparr>)"
    by (simp add: findUnique_email_def store_def emailCodeUser_def user0_def)
  from consume_once [where p = "''+2348012345678''" and s = "store [codeUser\<lparr>isPhoneVerified := True\<rparr>]"
      and u = "codeUser\<lparr>isPhoneVerified := True\<rparr>" and otp = "''123456''" and now = 1000] d
  have 7: "verifyPhone 1000 ''+2348012345678'' ''123456'' (store [codeUser\<lparr>isPhoneVerified := True\<rparr>]) =
     (Inl (BadRequestException ''Phone number is already verified''),
      store [codeUser\<lparr>isPhoneVerified := True\<rparr>])"
    by blast
  from consume_once [where em = "''ada@example.com''"
      and s = "store [emailCodeUser\<lparr>isEmailVerified := True\<rparr>]"
      and u = "emailCodeUser\<lparr>isEmailVerified := True\<rparr>" and otp = "''222222''" and now = 1000] f
  have 8: "verifyEmail 1000 ''ada@example.com'' ''222222'' (store [emailCodeUser\<lparr>isEmailVerified := True\<rparr>]) =
     (Inl (BadRequestException ''Email is already verified''),
      store [emailCodeUser\<lparr>isEmailVerified := True\<rparr>])"
    by blast
  from 1 2 3 4 5 6 have "fst (verifyPhone 1000 ''+2348012345678'' ''123456'' (store [codeUser])) = Inr () \<and>
   fst (verifyPhone 2000 ''+2348012345678'' ''123456''
          (snd (verifyPhone 1000 ''+2348012345678'' ''123456'' (store [codeUser])))) =
     Inl (BadRequestException ''Phone number is already verified'') \<and>
   fst (verifyEmail 1000 ''ada@example.com'' ''222222'' (store [emailCodeUser])) = Inr () \<and>
   fst (verifyEmail 2000 ''ada@example.com'' ''222222''
          (snd (verifyEmail 1000 ''ada@example.com'' ''222222'' (store [emailCodeUser])))) =
     Inl (BadRequestException ''Email is already verified'') \<and>
   fst (resetPasswordWithOTP env0 1000 ''+2348012345678'' ''654321'' ''NewPass1!'' (store [codeUser])) =
     Inr () \<and>
   fst (resetPasswordWithOTP env0 2000 ''+2348012345678'' ''654321'' ''Other2!''
          (snd (resetPasswordWithOTP env0 1000 ''+2348012345678'' ''654321'' ''NewPass1!''
                  (store [codeUser])))) =
     Inl (BadRequestException ''No OTP found. Please request a new one'')"
    by simp
  with 7 8 show ?thesis by blast
qed

section \<open>One counter for all purposes\<close>

text \<open>
  A user whose phone is verified asks for a password-reset code and, a minute later, for
  a phone-verification code: the second request is refused as already verified, not as
  rate limited.
\<close>

theorem already_verified_not_rate_limited_counterexample:
  "fst (generatePasswordResetOTP env0 1000 1000 1000 ''654321'' True ''+2348012345678''
          (store [user0\<lparr>isPhoneVerified := True\<rparr>])) = Inr () \<and>
   fst (generatePhoneVerificationOTP env0 61000 61000 61000 ''123456'' True ''u1''
          (snd (generatePasswordResetOTP env0 1000 1000 1000 ''654321'' True ''+2348012345678''
                  (store [user0\<lparr>isPhoneVerified := True\<rparr>])))) =
     Inl (BadRequestException ''Phone number is already verified'')"
  by code_simp

text \<open>
  Claim C5, as the code has it. Let the id \<open>uid\<close> and the phone number \<open>p\<close> name the
  same user. After a successful \<open>generatePhoneVerificationOTP\<close> at \<open>now\<close> the row found
  by \<open>p\<close> records \<open>now\<close> as the last request and the counter that was read plus one; a
  \<open>generatePasswordResetOTP\<close> less than the minimum interval later fails with the wait
  message and changes nothing, and one after the interval fails with the daily-limit
  message once that counter has reached the limit. After a successful
  \<open>generatePasswordResetOTP\<close> the row found by \<open>uid\<close> records the same, and a
  \<open>generatePhoneVerificationOTP\<close> is refused in the same two ways when the phone is not
  verified; when the phone is verified it fails with \<open>Phone number is already verified\<close>,
  the guard that comes before the rate limit.
\<close>

theorem shared_rate_limit:
  assumes "findUnique_id uid (users s) = Some u" and "findUnique_phone p (users s) = Some u"
  shows
   "(generatePhoneVerificationOTP env now today dateNow otp smsOk uid s = (Inr (), s1) \<longrightarrow>
       (\<exists>u1. findUnique_phone p (users s1) = Some u1 \<and> lastOtpRequestTime u1 = Some now \<and>
             otpRequestCount u1 = otpRequestCount u + 1) \<and>
       (now2 - now < otpMinIntervalMinutes env * 60000 \<longrightarrow>
          generatePasswordResetOTP env now2 today2 dateNow2 otp2 smsOk2 p s1 =
            (Inl (BadRequestException (waitMessage
               \<lceil>of_int (otpMinIntervalMinutes env) - minutesSinceLastRequest now2 now\<rceil>)), s1)) \<and>
       (otpMinIntervalMinutes env * 60000 \<le> now2 - now \<and>
          otpDailyLimit env \<le> otpRequestCount u + 1 \<longrightarrow>
          fst (generatePasswordResetOTP env now2 today2 dateNow2 otp2 smsOk2 p s1) =
            Inl (BadRequestException (limitMessage env)))) \<and>
    (generatePasswordResetOTP env now today dateNow otp smsOk p s = (Inr (), s1) \<longrightarrow>
       (\<exists>u1. findUnique_id uid (users s1) = Some u1 \<and> lastOtpRequestTime u1 = Some now \<and>
             otpRequestCount u1 = otpRequestCount u + 1) \<and>
       (isPhoneVerified u \<longrightarrow>
          generatePhoneVerificationOTP env now2 today2 dateNow2 otp2 smsOk2 uid s1 =
            (Inl (BadRequestException ''Phone number is already verified''), s1)) \<and>
       (\<not> isPhoneVerified u \<and> now2 - now < otpMinIntervalMinutes env * 60000 \<longrightarrow>
          generatePhoneVerificationOTP env now2 today2 dateNow2 otp2 smsOk2 uid s1 =
            (Inl (BadRequestException (waitMessage
               \<lceil>of_int (otpMinIntervalMinutes env) - minutesSinceLastRequest now2 now\<rceil>)), s1)) \<and>
       (\<not> isPhoneVerified u \<and> otpMinIntervalMinutes env * 60000 \<le> now2 - now \<and>
          otpDailyLimit env \<le> otpRequestCount u + 1 \<longrightarrow>
          fst (generatePhoneVerificationOTP env now2 today2 dateNow2 otp2 smsOk2 uid s1) =
            Inl (BadRequestException (limitMessage env))))"
proof (intro conjI impI)
  assume a: "generatePhoneVerificationOTP env now today dateNow otp smsOk uid s = (Inr (), s1)"
  let ?F = "\<lambda>x. x\<lparr>phoneVerificationOTP := Some otp,
               phoneVerificationOTPExpires := Some (dateNow + otpExpiryMinutes env * 60 * 1000),
               lastOtpRequestTime := Some now,
               otpRequestCount := otpRequestCount u + 1\<rparr>"
  from generatePhoneVerificationOTP_success [OF a assms(1)]
  obtain us1 where r: "resetDailyCounter env today u (users s) = Inr us1"
    and w: "update_user (id' u) ?F us1 = Inr (users s1)" by blast
  from assms(2) have f: "find (\<lambda>v. phone v = p) (users s) = Some u"
    by (simp add: findUnique_phone_def)
  have "find (\<lambda>v. phone v = p) (users s1) = Some (?F u)"
    by (rule issue_find [OF f _ _ _ r w]) simp_all
  then have g: "findUnique_phone p (users s1) = Some (?F u)"
    by (simp add: findUnique_phone_def)
  have l: "lastOtpRequestTime (?F u) = Some now" and c: "otpRequestCount (?F u) = otpRequestCount u + 1"
    by simp_all
  from g l c show "\<exists>u1. findUnique_phone p (users s1) = Some u1 \<and> lastOtpRequestTime u1 = Some now \<and>
             otpRequestCount u1 = otpRequestCount u + 1" by blast
  note k = generatePasswordResetOTP_after [OF g l, of now2 env today2 dateNow2 otp2 smsOk2]
  { assume "now2 - now < otpMinIntervalMinutes env * 60000"
    with k show "generatePasswordResetOTP env now2 today2 dateNow2 otp2 smsOk2 p s1 =
            (Inl (BadRequestException (waitMessage
               \<lceil>of_int (otpMinIntervalMinutes env) - minutesSinceLastRequest now2 now\<rceil>)), s1)" by blast }
  { assume "otpMinIntervalMinutes env * 60000 \<le> now2 - now \<and>
          otpDailyLimit env \<le> otpRequestCount u + 1"
    with k c show "fst (generatePasswordResetOTP env now2 today2 dateNow2 otp2 smsOk2 p s1) =
            Inl (BadRequestException (limitMessage env))" by simp }
next
  assume a: "generatePasswordResetOTP env now today dateNow otp smsOk p s = (Inr (), s1)"
  let ?F = "\<lambda>x. x\<lparr>resetPasswordOTP := Some otp,
               resetPasswordOTPExpires := Some (dateNow + otpExpiryMinutes env * 60 * 1000),
               lastOtpRequestTime := Some now,
               otpRequestCount := otpRequestCount u + 1\<rparr>"
  from generatePasswordResetOTP_success [OF a assms(2)]
  obtain us1 where r: "resetDailyCounter env today u (users s) = Inr us1"
    and w: "update_user (id' u) ?F us1 = Inr (users s1)" by blast
  from assms(1) have f: "find (\<lambda>v. id' v = uid) (users s) = Some u"
    by (simp add: findUnique_id_def)
  have "find (\<lambda>v. id' v = uid) (users s1) = Some (?F u)"
    by (rule issue_find [OF f _ _ _ r w]) simp_all
  then have g: "findUnique_id uid (users s1) = Some (?F u)"
    by (simp add: findUnique_id_def)
  have l: "lastOtpRequestTime (?F u) = Some now" and c: "otpRequestCount (?F u) = otpRequestCount u + 1"
    by simp_all
  from g l c show "\<exists>u1. findUnique_id uid (users s1) = Some u1 \<and> lastOtpRequestTime u1 = Some now \<and>
             otpRequestCount u1 = otpRequestCount u + 1" by blast
  { assume "isPhoneVerified u"
    then have "isPhoneVerified (?F u)" by simp
    with g show "generatePhoneVerificationOTP env now2 today2 dateNow2 otp2 smsOk2 uid s1 =
            (Inl (BadRequestException ''Phone number is already verified''), s1)"
      by (simp add: generatePhoneVerificationOTP_def) }
  { assume b: "\<not> isPhoneVerified u \<and> now2 - now < otpMinIntervalMinutes env * 60000"
    then have n: "\<not> isPhoneVerified (?F u)" by simp
    from generatePhoneVerificationOTP_after [OF g l n, of now2 env today2 dateNow2 otp2 smsOk2] b
    show "generatePhoneVerificationOTP env now2 today2 dateNow2 otp2 smsOk2 uid s1 =
            (Inl (BadRequestException (waitMessage
               \<lceil>of_int (otpMinIntervalMinutes env) - minutesSinceLastRequest now2 now\<rceil>)), s1)" by blast }
  { assume b: "\<not> isPhoneVerified u \<and> otpMinIntervalMinutes env * 60000 \<le> now2 - now \<and>
          otpDailyLimit env \<le> otpRequestCount u + 1"
    then have n: "\<not> isPhoneVerified (?F u)" by simp
    from generatePhoneVerificationOTP_after [OF g l n, of now2 env today2 dateNow2 otp2 smsOk2] b c
    show "fst (generatePhoneVerificationOTP env now2 today2 dateNow2 otp2 smsOk2 uid s1) =
            Inl (BadRequestException (limitMessage env))" by simp }
qed

theorem shared_rate_limit_witness:
  "fst (generatePhoneVerificationOTP env0 1000 1000 1000 ''123456'' True ''u1''
          (store [user0\<lparr>otpRequestCount := 2\<rparr>])) = Inr () \<and>
   fst (generatePasswordResetOTP env0 61000 61000 61000 ''654321'' True ''+2348012345678''
          (snd (generatePhoneVerificationOTP env0 1000 1000 1000 ''123456'' True ''u1''
                  (store [user0\<lparr>otpRequestCount := 2\<rparr>])))) =
     Inl (BadRequestException (waitMessage 4)) \<and>
   fst (generatePasswordResetOTP env0 301000 301000 301000 ''654321'' True ''+2348012345678''
          (snd (generatePhoneVerificationOTP env0 1000 1000 1000 ''123456'' True ''u1''
                  (store [user0\<lparr>otpRequestCount := 2\<rparr>])))) =
     Inl (BadRequestException (limitMessage env0)) \<and>
   fst (generatePasswordResetOTP env0 1000 1000 1000 ''654321'' True ''+2348012345678''
          (store [user0\<lparr>otpRequestCount := 2\<rparr>])) = Inr () \<and>
   fst (generatePhoneVerificationOTP env0 61000 61000 61000 ''123456'' True ''u1''
          (snd (generatePasswordResetOTP env0 1000 1000 1000 ''654321'' True ''+2348012345678''
                  (store [user0\<lparr>otpRequestCount := 2\<rparr>])))) =
     Inl (BadRequestException (waitMessage 4)) \<and>
   fst (generatePhoneVerificationOTP env0 301000 301000 301000 ''123456'' True ''u1''
          (snd (generatePasswordResetOTP env0 1000 1000 1000 ''654321'' True ''+2348012345678''
                  (store [user0\<lparr>otpRequestCount := 2\<rparr>])))) =
     Inl (BadRequestException (limitMessage env0)) \<and>
   fst (generatePasswordResetOTP env0 1000 1000 1000 ''654321'' True ''+2348012345678''
          (store [user0\<lparr>isPhoneVerified := True\<rparr>])) = Inr () \<and>
   fst (generatePhoneVerificationOTP env0 61000 61000 61000 ''123456'' True ''u1''
          (snd (generatePasswordResetOTP env0 1000 1000 1000 ''654321'' True ''+2348012345678''
                  (store [user0\<lparr>isPhoneVerified := True\<rparr>])))) =
     Inl (BadRequestException ''Phone number is already verified'')"
proof -
  let ?u = "user0\<lparr>otpRequestCount := 2\<rparr>"
  let ?a = "generatePhoneVerificationOTP env0 1000 1000 1000 ''123456'' True ''u1'' (store [?u])"
  let ?b = "generatePasswordResetOTP env0 1000 1000 1000 ''654321'' True ''+2348012345678'' (store [?u])"
  have h1: "findUnique_id ''u1'' (users (store [?u])) = Some ?u"
    by (simp add: findUnique_id_def store_def user0_def)
  have h2: "findUnique_phone ''+2348012345678'' (users (store [?u])) = Some ?u"
    by (simp add: findUnique_phone_def store_def user0_def)
  have nv: "\<not> isPhoneVerified ?u" by (simp add: user0_def)
  have w: "\<lceil>of_int (otpMinIntervalMinutes env0) - minutesSinceLastRequest 61000 1000\<rceil> = 4"
    by code_simp
  have i1: "(61000::int) - 1000 < otpMinIntervalMinutes env0 * 60000"
    by (simp add: env0_def)
  have i2: "otpMinIntervalMinutes env0 * 60000 \<le> (301000::int) - 1000 \<and>
      otpDailyLimit env0 \<le> otpRequestCount ?u + 1"
    by (simp add: env0_def user0_def)
  have fa: "fst ?a = Inr ()" by code_simp
  then obtain sa where a: "?a = (Inr (), sa)" by (cases ?a) simp
  have fb: "fst ?b = Inr ()" by code_simp
  then obtain sb where b: "?b = (Inr (), sb)" by (cases ?b) simp
  from shared_rate_limit [OF h1 h2, where env = env0 and now = 1000 and today = 1000
      and dateNow = 1000 and otp = "''123456''" and smsOk = True and ?s1.0 = sa and ?now2.0 = 61000
      and ?today2.0 = 61000 and ?dateNow2.0 = 61000 and ?otp2.0 = "''654321''" and ?smsOk2.0 = True] a i1
  have 1: "fst (generatePasswordResetOTP env0 61000 61000 61000 ''654321'' True ''+2348012345678'' sa) =
      Inl (BadRequestException (waitMessage 4))"
    unfolding w by simp
  from shared_rate_limit [OF h1 h2, where env = env0 and now = 1000 and today = 1000
      and dateNow = 1000 and otp = "''123456''" and smsOk = True and ?s1.0 = sa and ?now2.0 = 301000
      and ?today2.0 = 301000 and ?dateNow2.0 = 301000 and ?otp2.0 = "''654321''" and ?smsOk2.0 = True] a i2
  have 2: "fst (generatePasswordResetOTP env0 301000 301000 301000 ''654321'' True ''+2348012345678'' sa) =
      Inl (BadRequestException (limitMessage env0))"
    by blast
  from shared_rate_limit [OF h1 h2, where env = env0 and now = 1000 and today = 1000
      and dateNow = 1000 and otp = "''654321''" and smsOk = True and ?s1.0 = sb and ?now2.0 = 61000
      and ?today2.0 = 61000 and ?dateNow2.0 = 61000 and ?otp2.0 = "''123456''" and ?smsOk2.0 = True] b nv i1
  have 3: "fst (generatePhoneVerificationOTP env0 61000 61000 61000 ''123456'' True ''u1'' sb) =
      Inl (BadRequestException (waitMessage 4))"
    unfolding w by simp
  from shared_rate_limit [OF h1 h2, where env = env0 and now = 1000 and today = 1000
      and dateNow = 1000 and otp = "''654321''" and smsOk = True and ?s1.0 = sb and ?now2.0 = 301000
      and ?today2.0 = 301000 and ?dateNow2.0 = 301000 and ?otp2.0 = "''123456''" and ?smsOk2.0 = True] b nv i2
  have 4: "fst (generatePhoneVerificationOTP env0 301000 301000 301000 ''123456'' True ''u1'' sb) =
      Inl (BadRequestException (limitMessage env0))"
    by blast
  let ?v = "user0\<lparr>isPhoneVerified := True\<rparr>"
  let ?c = "generatePasswordResetOTP env0 1000 1000 1000 ''654321'' True ''+2348012345678'' (store [?v])"
  have h3: "findUnique_id ''u1'' (users (store [?v])) = Some ?v"
    by (simp add: findUnique_id_def store_def user0_def)
  have h4: "findUnique_phone ''+2348012345678'' (users (store [?v])) = Some ?v"
    by (simp add: findUnique_phone_def store_def user0_def)
  have vv: "isPhoneVerified ?v" by simp
  have fc: "fst ?c = Inr ()" by code_simp
  then obtain sc where c: "?c = (Inr (), sc)" by (cases ?c) simp
  from shared_rate_limit [OF h3 h4, where env = env0 and now = 1000 and today = 1000
      and dateNow = 1000 and otp = "''654321''" and smsOk = True and ?s1.0 = sc and ?now2.0 = 61000
      and ?today2.0 = 61000 and ?dateNow2.0 = 61000 and ?otp2.0 = "''123456''" and ?smsOk2.0 = True] c vv
  have 5: "fst (generatePhoneVerificationOTP env0 61000 61000 61000 ''123456'' True ''u1'' sc) =
      Inl (BadRequestException ''Phone number is already verified'')"
    by simp
  from a have sa: "snd ?a = sa" by simp
  from b have sb: "snd ?b = sb" by simp
  from c have sc: "snd ?c = sc" by simp
  from fa fb fc 1 2 3 4 5 show ?thesis unfolding sa sb sc by blast
qed

section \<open>Forgot password by email\<close>

text \<open>
  With the mail service throwing, an email that no user has gets the normal return and
  an email that a user has gets the error of the mail service.
\<close>

theorem registered_email_mail_failure_counterexample:
  "fst (generateResetToken 1000 ''a3f9'' False ''nobody@example.com'' (store [user0])) = Inr () \<and>
   fst (generateResetToken 1000 ''a3f9'' False ''ada@example.com'' (store [user0])) = Inl DispatchError"
  by code_simp

text \<open>
  Claim C6, as the code has it. For an email that no user has, \<open>generateResetToken\<close>
  returns normally, whatever the mail service would have answered, and the state it
  leaves is the state it found: no row is changed and nothing is added to the mail sent.
  For an email that a user has, the call returns normally as well when the mail service
  accepts the message; when the mail service throws, its error is not caught and is the
  answer of the call.
\<close>

theorem generateResetToken_unknown_email:
  "(e \<notin> set (map email (users s)) \<longrightarrow> generateResetToken dateNow tok mailOk e s = (Inr (), s)) \<and>
   (e \<in> set (map email (users s)) \<longrightarrow>
      fst (generateResetToken dateNow tok True e s) = Inr () \<and>
      fst (generateResetToken dateNow tok False e s) = Inl DispatchError)"
proof (intro conjI impI)
  assume "e \<notin> set (map email (users s))"
  then have "findUnique_email e (users s) = None"
    by (simp add: findUnique_email_None_iff)
  then show "generateResetToken dateNow tok mailOk e s = (Inr (), s)"
    by (simp add: generateResetToken_def)
next
  assume "e \<in> set (map email (users s))"
  then obtain u where u: "findUnique_email e (users s) = Some u"
    using findUnique_email_None_iff [of e "users s"]
    by (cases "findUnique_email e (users s)") auto
  then have "u \<in> set (users s)"
    by (simp add: findUnique_email_def find_Some_mem)
  note w = update_user_member [OF this]
  from u show "fst (generateResetToken dateNow tok True e s) = Inr ()"
    by (simp add: generateResetToken_def w)
  from u show "fst (generateResetToken dateNow tok False e s) = Inl DispatchError"
    by (simp add: generateResetToken_def w)
qed

theorem generateResetToken_unknown_email_witness:
  "generateResetToken 1000 ''a3f9'' True ''nobody@example.com'' (store [user0]) = (Inr (), store [user0]) \<and>
   generateResetToken 1000 ''a3f9'' False ''nobody@example.com'' (store [user0]) = (Inr (), store [user0]) \<and>
   fst (generateResetToken 1000 ''a3f9'' True ''ada@example.com'' (store [user0])) = Inr () \<and>
   fst (generateResetToken 1000 ''a3f9'' False ''ada@example.com'' (store [user0])) = Inl DispatchError"
proof -
  have a: "''nobody@example.com'' \<notin> set (map email (users (store [user0])))"
    by (simp add: store_def user0_def)
  have b: "''ada@example.com'' \<in> set (map email (users (store [user0])))"
    by (simp add: store_def user0_def)
  note 1 = generateResetToken_unknown_email [where e = "''nobody@example.com''" and s = "store [user0]"
      and dateNow = 1000 and tok = "''a3f9''" and mailOk = True, THEN conjunct1, THEN mp, OF a]
  note 2 = generateResetToken_unknown_email [where e = "''nobody@example.com''" and s = "store [user0]"
      and dateNow = 1000 and tok = "''a3f9''" and mailOk = False, THEN conjunct1, THEN mp, OF a]
  note 3 = generateResetToken_unknown_email [where e = "''ada@example.com''" and s = "store [user0]"
      and dateNow = 1000 and tok = "''a3f9''", THEN conjunct2, THEN mp, OF b]
  show ?thesis by (intro conjI 1 2 3 [THEN conjunct1] 3 [THEN conjunct2])
qed

section \<open>Reset by token\<close>

text \<open>
  Claim C7. Whenever no row holds the submitted token together with a deadline strictly
  after \<open>now\<close>, \<open>resetPassword\<close> fails with the one BadRequest message
  \<open>Invalid or expired reset token\<close> and leaves the state as it was. A token whose
  deadline has passed and a token that was never issued are both such cases, so their
  failures are equal.
\<close>

theorem resetPassword_invalid_or_expired:
  assumes "\<forall>u \<in> set (users s). resetPasswordToken u = Some tok \<longrightarrow>
             (\<forall>e. resetPasswordExpires u = Some e \<longrightarrow> e \<le> now)"
  shows "resetPassword env now tok pw s =
           (Inl (BadRequestException ''Invalid or expired reset token''), s)"
proof -
  have "\<not> holdsToken tok now u" if "u \<in> set (users s)" for u
    using assms that by (auto simp: holdsToken_def split: option.splits)
  then have "findFirst_resetToken tok now (users s) = None"
    by (simp add: findFirst_resetToken_def find_None_iff)
  then show ?thesis by (simp add: resetPassword_def)
qed

theorem resetPassword_invalid_or_expired_witness:
  "resetPassword env0 3600000 ''9f2c'' ''NewPass1!'' (store [tokenUser]) =
     (Inl (BadRequestException ''Invalid or expired reset token''), store [tokenUser]) \<and>
   resetPassword env0 3600000 ''0000'' ''NewPass1!'' (store [tokenUser]) =
     (Inl (BadRequestException ''Invalid or expired reset token''), store [tokenUser])"
proof -
  have a: "\<forall>u \<in> set (users (store [tokenUser])). resetPasswordToken u = Some ''9f2c'' \<longrightarrow>
             (\<forall>e. resetPasswordExpires u = Some e \<longrightarrow> e \<le> 3600000)"
    by (simp add: store_def tokenUser_def user0_def)
  have b: "\<forall>u \<in> set (users (store [tokenUser])). resetPasswordToken u = Some ''0000'' \<longrightarrow>
             (\<forall>e. resetPasswordExpires u = Some e \<longrightarrow> e \<le> 3600000)"
    by (simp add: store_def tokenUser_def user0_def)
  show ?thesis
    using resetPassword_invalid_or_expired [OF a, of env0 "''NewPass1!''"]
      resetPassword_invalid_or_expired [OF b, of env0 "''NewPass1!''"] by simp
qed

section \<open>Login\<close>

text \<open>
  Claim C8. The checks of \<open>logIn\<close> come in this order: an unknown phone and a wrong
  password both fail Unauthorized with the same message; with the right password an
  inactive account fails Forbidden; an active account whose phone is not verified fails
  Forbidden with the request to verify. So a user whose phone is not verified never
  gets a token, and with the right password the failure is Forbidden.
\<close>

theorem logIn_check_order:
  "(findUnique_phone p (users s) = None \<longrightarrow>
      logIn env p pw s = Inl (UnauthorizedException ''Invalid credentials'')) \<and>
   (findUnique_phone p (users s) = Some u \<and> \<not> bcrypt_compare env pw (password u) \<longrightarrow>
      logIn env p pw s = Inl (UnauthorizedException ''Invalid credentials'')) \<and>
   (findUnique_phone p (users s) = Some u \<and> bcrypt_compare env pw (password u) \<and> \<not> isActive u \<longrightarrow>
      logIn env p pw s = Inl (ForbiddenException ''Your account has been deactivated'')) \<and>
   (findUnique_phone p (users s) = Some u \<and> bcrypt_compare env pw (password u) \<and> isActive u
      \<and> \<not> isPhoneVerified u \<longrightarrow>
      logIn env p pw s =
        Inl (ForbiddenException ''Please verify your phone number before logging in'')) \<and>
   (findUnique_phone p (users s) = Some u \<and> bcrypt_compare env pw (password u)
      \<and> \<not> isPhoneVerified u \<longrightarrow>
      (\<exists>m. logIn env p pw s = Inl (ForbiddenException m))) \<and>
   (findUnique_phone p (users s) = Some u \<and> \<not> isPhoneVerified u \<longrightarrow>
      (\<exists>e. logIn env p pw s = Inl e))"
  by (simp add: logIn_def)

theorem logIn_check_order_witness:
  "logIn env0 ''+2340000000000'' ''StrongPass123!'' (store [user0]) =
     Inl (UnauthorizedException ''Invalid credentials'') \<and>
   logIn env0 ''+2348012345678'' ''wrong'' (store [user0]) =
     Inl (UnauthorizedException ''Invalid credentials'') \<and>
   logIn env0 ''+2348012345678'' ''StrongPass123!'' (store [user0\<lparr>isActive := False\<rparr>]) =
     Inl (ForbiddenException ''Your account has been deactivated'') \<and>
   logIn env0 ''+2348012345678'' ''StrongPass123!'' (store [user0]) =
     Inl (ForbiddenException ''Please verify your phone number before logging in'')"
  using logIn_check_order [of "''+2340000000000''" "store [user0]" env0 "''StrongPass123!''" user0]
    logIn_check_order [of "''+2348012345678''" "store [user0]" env0 "''wrong''" user0]
    logIn_check_order [of "''+2348012345678''" "store [user0\<lparr>isActive := False\<rparr>]" env0
      "''StrongPass123!''" "user0\<lparr>isActive := False\<rparr>"]
    logIn_check_order [of "''+2348012345678''" "store [user0]" env0 "''StrongPass123!''" user0]
  by (simp add: store_def user0_def env0_def findUnique_phone_def)

section \<open>Dispatch failure after the code is stored\<close>



section \<open>Session validation\<close>

text \<open>
  With a store client that throws on an undefined id, a payload with neither field gets
  that error and not the Unauthorized rejection. A payload with only the empty string as
  \<open>id\<close> is rejected as Unauthorized, while payloads with the empty string as \<open>sub\<close>
  get the error of the client, or authenticate the user named by their \<open>id\<close>.
\<close>

theorem validate_undefined_id_counterexample:
  "validate (Inl ClientValidationError) \<lparr>payload_id = None, payload_sub = None\<rparr> (store [user0]) =
     Inl ClientValidationError \<and>
   validate (Inl ClientValidationError) \<lparr>payload_id = Some '''', payload_sub = None\<rparr> (store [user0]) =
     Inl (UnauthorizedException ''Login first to access this endpoint.'') \<and>
   validate (Inl ClientValidationError) \<lparr>payload_id = None, payload_sub = Some ''''\<rparr> (store [user0]) =
     Inl ClientValidationError \<and>
   validate (Inl ClientValidationError) \<lparr>payload_id = Some ''u1'', payload_sub = Some ''''\<rparr> (store [user0]) =
     Inr (AuthUser ''u1'' ''Ada'' ''Obi'' ''ada@example.com'' ''+2348012345678'' USER True)"
  by code_simp

text \<open>
  Claim C10, as the code has it. \<open>validate\<close> looks the user up by \<open>sub\<close> when the
  payload has a non-empty \<open>sub\<close>, and by \<open>id\<close> when \<open>sub\<close> is absent or empty. A
  payload with only \<open>id = v\<close> gets the answer of a payload with the non-empty \<open>sub = v\<close>,
  whatever \<open>id\<close> that one carries; it authenticates the active user with id \<open>v\<close> and
  fails Unauthorized when no row has that id. With neither field the id handed to the
  store is undefined, and the answer is the store's: Unauthorized when the lookup reports
  no row, and the error of the lookup when it throws.
\<close>

theorem validate_sub_or_id:
  "(v \<noteq> [] \<longrightarrow> userIdOf \<lparr>payload_id = i, payload_sub = Some v\<rparr> = Some v) \<and>
   userIdOf \<lparr>payload_id = i, payload_sub = None\<rparr> = i \<and>
   userIdOf \<lparr>payload_id = i, payload_sub = Some []\<rparr> = i \<and>
   (v \<noteq> [] \<longrightarrow>
      validate d \<lparr>payload_id = Some v, payload_sub = None\<rparr> s =
      validate d \<lparr>payload_id = i, payload_sub = Some v\<rparr> s) \<and>
   (findUnique_id v (users s) = Some u \<and> isActive u \<longrightarrow>
      validate d \<lparr>payload_id = Some v, payload_sub = None\<rparr> s =
        Inr (AuthUser v (firstName u) (lastName u) (email u) (phone u) (role u) True)) \<and>
   (findUnique_id v (users s) = None \<longrightarrow>
      validate d \<lparr>payload_id = Some v, payload_sub = None\<rparr> s =
        Inl (UnauthorizedException ''Login first to access this endpoint.'')) \<and>
   validate (Inr None) \<lparr>payload_id = None, payload_sub = None\<rparr> s =
     Inl (UnauthorizedException ''Login first to access this endpoint.'') \<and>
   validate (Inl err) \<lparr>payload_id = None, payload_sub = None\<rparr> s = Inl err"
  by (auto simp: validate_def userIdOf_def falsy_def findUnique_id_opt_def findUnique_id_def
      dest: find_Some_mem)

theorem validate_sub_or_id_witness:
  "userIdOf \<lparr>payload_id = Some ''u2'', payload_sub = Some ''u1''\<rparr> = Some ''u1'' \<and>
   validate (Inl ClientValidationError) \<lparr>payload_id = Some ''u1'', payload_sub = None\<rparr> (store [user0]) =
     validate (Inl ClientValidationError) \<lparr>payload_id = Some ''u2'', payload_sub = Some ''u1''\<rparr>
       (store [user0]) \<and>
   validate (Inl ClientValidationError) \<lparr>payload_id = Some ''u1'', payload_sub = None\<rparr> (store [user0]) =
     Inr (AuthUser ''u1'' ''Ada'' ''Obi'' ''ada@example.com'' ''+2348012345678'' USER True) \<and>
   validate (Inl ClientValidationError) \<lparr>payload_id = Some ''u9'', payload_sub = None\<rparr> (store [user0]) =
     Inl (UnauthorizedException ''Login first to access this endpoint.'')"
proof -
  have n: "''u1'' \<noteq> []" by simp
  have f: "findUnique_id ''u1'' (users (store [user0])) = Some user0 \<and> isActive user0"
    by (simp add: store_def user0_def findUnique_id_def)
  have m: "findUnique_id ''u9'' (users (store [user0])) = None"
    by (simp add: store_def user0_def findUnique_id_def)
  have g: "AuthUser ''u1'' (firstName user0) (lastName user0) (email user0) (phone user0)
             (role user0) True =
           AuthUser ''u1'' ''Ada'' ''Obi'' ''ada@example.com'' ''+2348012345678'' USER True"
    by (simp add: user0_def)
  note T = validate_sub_or_id [where v = "''u1''" and i = "Some ''u2''" and s = "store [user0]"
      and u = user0 and d = "Inl ClientValidationError"]
  note 1 = T [THEN conjunct1, THEN mp, OF n]
  note 2 = T [THEN conjunct2, THEN conjunct2, THEN conjunct2, THEN conjunct1, THEN mp, OF n]
  note 3 = T [THEN conjunct2, THEN conjunct2, THEN conjunct2, THEN conjunct2, THEN conjunct1,
      THEN mp, OF f, unfolded g]
  note 4 = validate_sub_or_id [where v = "''u9''" and s = "store [user0]"
      and d = "Inl ClientValidationError", THEN conjunct2, THEN conjunct2, THEN conjunct2,
      THEN conjunct2, THEN conjunct2, THEN conjunct1, THEN mp, OF m]
  show ?thesis by (intro conjI 1 2 3 4)
qed

end
